theory Spec2Isabelle
  imports Complex_Main "HOL-Library.Sublist"
begin

section \<open>The waste analyzer page (src/app/demo/page.tsx)\<close>

text \<open>
  The page is one React component with five state cells and two event handlers,
  \<open>handleFileChange\<close> and \<open>handleAnalyze\<close>. A handler is modelled as a function from
  the state it closes over to the list of effects it performs, in program order, and
  the way it ends. The state after a handler is the state before it with the handler's
  setter calls applied in order. What the browser supplies (the file reader, the k-th
  call of \<open>fetch\<close>, \<open>JSON.parse\<close>, \<open>JSON.stringify\<close>, \<open>URL.createObjectURL\<close>) is a
  parameter of the model.
\<close>

subsection \<open>JavaScript values\<close>

text \<open>
  A JSON value. A number is the rational value of the double that \<open>JSON.parse\<close> yields
  (JSON has no NaN and no infinity); an object keeps its properties in source order,
  each name once.
  \<open>undefined\<close> is not a JSON value: a value that may be undefined is a \<open>json option\<close>.
\<close>

datatype json =
    JNull
  | JBool bool
  | JNum rat
  | JStr string
  | JArr "json list"
  | JObj "(string \<times> json) list"

text \<open>A thrown value. The handler reads nothing of it but \<open>err.message\<close>.\<close>

datatype js_error = Error (message: string)

text \<open>JavaScript truthiness of a value that may be undefined.\<close>

fun truthy :: "json option \<Rightarrow> bool" where
  "truthy None = False"
| "truthy (Some JNull) = False"
| "truthy (Some (JBool b)) = b"
| "truthy (Some (JNum n)) = (n \<noteq> 0)"
| "truthy (Some (JStr s)) = (s \<noteq> [])"
| "truthy (Some (JArr xs)) = True"
| "truthy (Some (JObj kvs)) = True"

text \<open>
  The \<open>TypeError\<close> of a property read on \<open>null\<close> or \<open>undefined\<close> (the wording of the
  message is the engine's; only its presence matters below).
\<close>

definition type_error :: "string \<Rightarrow> string \<Rightarrow> js_error" where
  "type_error what name =
     Error (''Cannot read properties of '' @ what @ '' (reading '' @ [CHR 0x27] @ name
            @ [CHR 0x27] @ '')'')"

text \<open>
  \<open>v.name\<close> for the property names the handler reads (\<open>candidates\<close>, \<open>content\<close>,
  \<open>parts\<close>, \<open>text\<close>): none of them is an inherited property of an array, a string, a
  number or a boolean, so only an object can have one.
\<close>

fun member :: "json option \<Rightarrow> string \<Rightarrow> js_error + json option" where
  "member None name = Inl (type_error ''undefined'' name)"
| "member (Some JNull) name = Inl (type_error ''null'' name)"
| "member (Some (JObj kvs)) name = Inr (map_of kvs name)"
| "member (Some v) name = Inr None"

text \<open>\<open>v[0]\<close>: the first element of an array, the first character of a string, the
  property \<open>"0"\<close> of an object.\<close>

fun index0 :: "json option \<Rightarrow> js_error + json option" where
  "index0 None = Inl (type_error ''undefined'' ''0'')"
| "index0 (Some JNull) = Inl (type_error ''null'' ''0'')"
| "index0 (Some (JObj kvs)) = Inr (map_of kvs ''0'')"
| "index0 (Some (JArr xs)) = Inr (case xs of [] \<Rightarrow> None | x # _ \<Rightarrow> Some x)"
| "index0 (Some (JStr s)) = Inr (case s of [] \<Rightarrow> None | c # _ \<Rightarrow> Some (JStr [c]))"
| "index0 (Some v) = Inr None"

text \<open>Optional chaining: \<open>v?.name\<close> and \<open>v?.[0]\<close> are \<open>undefined\<close> when \<open>v\<close> is
  \<open>null\<close> or \<open>undefined\<close>, and the plain read otherwise.\<close>

definition nullish :: "json option \<Rightarrow> bool" where
  "nullish v = (v = None \<or> v = Some JNull)"

definition opt_member :: "json option \<Rightarrow> string \<Rightarrow> json option" where
  "opt_member v name =
     (if nullish v then None else (case member v name of Inl e \<Rightarrow> None | Inr x \<Rightarrow> x))"

definition opt_index0 :: "json option \<Rightarrow> json option" where
  "opt_index0 v =
     (if nullish v then None else (case index0 v of Inl e \<Rightarrow> None | Inr x \<Rightarrow> x))"

text \<open>\<open>s.split(c)\<close> for a one-character separator, and \<open>xs[i]\<close> on the array it returns
  (\<open>undefined\<close> out of range).\<close>

fun split_on :: "char \<Rightarrow> string \<Rightarrow> string list" where
  "split_on c [] = [[]]"
| "split_on c (x # xs) =
     (if x = c then [] # split_on c xs
      else (case split_on c xs of [] \<Rightarrow> [[x]] | w # ws \<Rightarrow> (x # w) # ws))"

definition nth_opt :: "'a list \<Rightarrow> nat \<Rightarrow> 'a option" where
  "nth_opt xs i = (if i < length xs then Some (xs ! i) else None)"

text \<open>The decimal text of a number, as a template literal prints a status code.\<close>

definition digit_char :: "nat \<Rightarrow> char" where
  "digit_char d = char_of (48 + d)"

function string_of_nat :: "nat \<Rightarrow> string" where
  "string_of_nat n =
     (if n < 10 then [digit_char n] else string_of_nat (n div 10) @ [digit_char (n mod 10)])"
  by pat_completeness auto
termination
  by (relation "measure id") auto

declare string_of_nat.simps [simp del]

subsection \<open>Page state, browser objects, effects\<close>

record js_file =
  file_name :: string
  file_type :: string

record page_state =
  imageFile :: "js_file option"
  imagePreview :: string
  analysisResult :: json
  isLoading :: bool
  error :: string

text \<open>The \<open>useState\<close> initial values.\<close>

definition initial_state :: page_state where
  "initial_state =
     \<lparr>imageFile = None, imagePreview = [], analysisResult = JNull,
      isLoading = False, error = []\<rparr>"

text \<open>A \<open>Response\<close>: the three fields the handler reads, and how \<open>response.json()\<close>
  settles (it rejects on a body that is not JSON).\<close>

record response =
  ok :: bool
  status :: nat
  statusText :: string
  body_json :: "js_error + json"

datatype fetch_result = Rejected js_error | Resolved response

record request =
  url :: string
  http_method :: string
  headers :: "(string \<times> string) list"
  body :: string

text \<open>
  What the browser does during one run of \<open>handleAnalyze\<close>. \<open>readAsDataURL file\<close> is
  \<open>reader.result\<close> when \<open>loadend\<close> fires: the data URL, or \<open>None\<close> for \<open>null\<close> after a failed
  read. \<open>fetch k\<close> is how the k-th call of \<open>fetch\<close> settles. \<open>JSON_parse\<close> takes the value
  it is given (it converts it to a string itself) and returns the parsed value or
  throws. Every call of \<open>fetch\<close>, of \<open>response.json()\<close> and of the timer settles.
\<close>

record env =
  readAsDataURL :: "js_file \<Rightarrow> string option"
  fetch :: "nat \<Rightarrow> fetch_result"
  JSON_stringify :: "json \<Rightarrow> string"
  JSON_parse :: "json option \<Rightarrow> js_error + json"

datatype event =
    SetImageFile js_file
  | SetImagePreview string
  | SetAnalysisResult json
  | SetIsLoading bool
  | SetError string
  | ReadFile js_file
  | Fetch request
  | Sleep nat
  | ConsoleError js_error

text \<open>How a piece of code ends: it completes with a value, it throws, or it waits for
  a promise that never settles.\<close>

datatype 'a result = Done 'a | Thrown js_error | Pending

type_synonym 'a comp = "event list \<times> 'a result"

definition emit :: "event \<Rightarrow> unit comp" where
  "emit e = ([e], Done ())"

definition throw :: "js_error \<Rightarrow> 'a comp" where
  "throw e = ([], Thrown e)"

definition lift :: "js_error + 'a \<Rightarrow> 'a comp" where
  "lift x = (case x of Inl e \<Rightarrow> ([], Thrown e) | Inr v \<Rightarrow> ([], Done v))"

definition prepend :: "event list \<Rightarrow> 'a comp \<Rightarrow> 'a comp" where
  "prepend t m = (t @ fst m, snd m)"

text \<open>Sequencing: the second part runs only when the first completes.\<close>

definition bind :: "'a comp \<Rightarrow> ('a \<Rightarrow> 'b comp) \<Rightarrow> 'b comp" where
  "bind m f =
     (case snd m of
        Done x \<Rightarrow> prepend (fst m) (f x)
      | Thrown e \<Rightarrow> (fst m, Thrown e)
      | Pending \<Rightarrow> (fst m, Pending))"

text \<open>\<open>try { m } catch (err) { h err }\<close>\<close>

definition try_catch :: "'a comp \<Rightarrow> (js_error \<Rightarrow> 'a comp) \<Rightarrow> 'a comp" where
  "try_catch m h =
     (case snd m of
        Thrown e \<Rightarrow> prepend (fst m) (h e)
      | Done x \<Rightarrow> m
      | Pending \<Rightarrow> m)"

text \<open>\<open>try { m } finally { fin }\<close>: the finalizer runs when \<open>m\<close> completes or throws, and
  what it throws replaces the outcome of \<open>m\<close>.\<close>

definition try_finally :: "'a comp \<Rightarrow> unit comp \<Rightarrow> 'a comp" where
  "try_finally m fin =
     (case snd m of
        Pending \<Rightarrow> m
      | r \<Rightarrow> (fst m @ fst fin,
              (case snd fin of Done u \<Rightarrow> r | Thrown e \<Rightarrow> Thrown e | Pending \<Rightarrow> Pending)))"

text \<open>The state cells after a list of effects: each setter call replaces its cell.\<close>

fun apply_event :: "page_state \<Rightarrow> event \<Rightarrow> page_state" where
  "apply_event s (SetImageFile f) = s\<lparr>imageFile := Some f\<rparr>"
| "apply_event s (SetImagePreview p) = s\<lparr>imagePreview := p\<rparr>"
| "apply_event s (SetAnalysisResult j) = s\<lparr>analysisResult := j\<rparr>"
| "apply_event s (SetIsLoading b) = s\<lparr>isLoading := b\<rparr>"
| "apply_event s (SetError m) = s\<lparr>error := m\<rparr>"
| "apply_event s (ReadFile f) = s"
| "apply_event s (Fetch r) = s"
| "apply_event s (Sleep d) = s"
| "apply_event s (ConsoleError e) = s"

definition run :: "page_state \<Rightarrow> event list \<Rightarrow> page_state" where
  "run s t = foldl apply_event s t"

fun is_fetch :: "event \<Rightarrow> bool" where
  "is_fetch (Fetch r) = True"
| "is_fetch e = False"

fun is_setter :: "event \<Rightarrow> bool" where
  "is_setter (SetImageFile f) = True"
| "is_setter (SetImagePreview p) = True"
| "is_setter (SetAnalysisResult j) = True"
| "is_setter (SetIsLoading b) = True"
| "is_setter (SetError m) = True"
| "is_setter e = False"

subsection \<open>fileToGenerativePart (lines 22-31)\<close>

text \<open>
  The promise resolves inside \<open>onloadend\<close> with \<open>reader.result.split(",")[1]\<close>. When the
  read failed, \<open>reader.result\<close> is \<open>null\<close>, the callback throws before it calls
  \<open>resolve\<close>, and the promise never settles. A property whose value is \<open>undefined\<close>
  (no comma in the text) is absent from the object once it is serialised.
\<close>

text \<open>The object of lines 28-30, given \<open>reader.result\<close>.\<close>

definition generative_part :: "string \<Rightarrow> js_file \<Rightarrow> json" where
  "generative_part dataUrl f =
     JObj [(''inlineData'',
       JObj ((case nth_opt (split_on CHR '','' dataUrl) 1 of
                None \<Rightarrow> [] | Some d \<Rightarrow> [(''data'', JStr d)])
             @ [(''mimeType'', JStr (file_type f))]))]"

definition fileToGenerativePart :: "env \<Rightarrow> js_file \<Rightarrow> json comp" where
  "fileToGenerativePart e f =
     ([ReadFile f],
      (case readAsDataURL e f of
         None \<Rightarrow> Pending
       | Some dataUrl \<Rightarrow> Done (generative_part dataUrl f)))"

subsection \<open>The request (lines 70-206)\<close>

definition apiKey :: string where
  "apiKey = []"

definition apiUrl :: string where
  "apiUrl = ''https://generativelanguage.googleapis.com/v1beta/models/gemini-2.5-flash-preview-09-2025:generateContent?key='' @ apiKey"

definition systemPrompt :: string where
  "systemPrompt =
     ''You are a waste management expert. Analyze the user's image of a waste item. First, identify the waste type, home treatment, and industry treatment for the item in the image. '' @
     ''In *addition* to identifying the item, you must *also* generate a complete set of *mock dashboard data* (stats, charts) to simulate a full user profile. '' @
     ''The identified item (waste_type, etc.) should be based on the image, but all other dashboard data should be plausibly fabricated. '' @
     ''Ensure the generated hex colors are distinct and aesthetically pleasing in a dark mode UI. '' @
     ''Respond *only* with the complete JSON object requested.''"

definition userQuery :: string where
  "userQuery = ''Analyze this image and provide waste treatment information and mock dashboard data.''"

text \<open>A schema node \<open>{ type: t, description: d }\<close>.\<close>

definition leaf :: "string \<Rightarrow> string \<Rightarrow> json" where
  "leaf t d = JObj [(''type'', JStr t), (''description'', JStr d)]"

definition schema_properties :: "(string \<times> json) list" where
  "schema_properties =
     [(''waste_type'', leaf ''STRING''
         ''The common name of the waste item in the image (e.g., 'Plastic Water Bottle', 'Apple Core').''),
      (''home_treatment'', leaf ''STRING''
         ''Concise instructions for how a person should dispose of this item at home.''),
      (''industry_treatment'', leaf ''STRING''
         ''A brief explanation of what happens to this item at an industrial/municipal level.''),
      (''stats'', JObj
         [(''type'', JStr ''OBJECT''),
          (''description'', JStr ''A set of mock statistics for the user's dashboard.''),
          (''properties'', JObj
             [(''recycled_items_count'', leaf ''NUMBER''
                 ''A mock count of total items recycled by this user (e.g., 2847).''),
              (''carbon_saved_kg'', leaf ''STRING''
                 ''A mock string representing total carbon saved, including units (e.g., '284 kg').''),
              (''average_score_percent'', leaf ''STRING''
                 ''A mock user 'eco-score' as a percentage string (e.g., '87%').'')])]),
      (''waste_composition'', JObj
         [(''type'', JStr ''ARRAY''),
          (''description'', JStr ''An array of 5 objects representing the user's mock waste composition for a pie chart.''),
          (''items'', JObj
             [(''type'', JStr ''OBJECT''),
              (''properties'', JObj
                 [(''name'', leaf ''STRING'' ''Category of waste (e.g., 'Plastic').''),
                  (''value'', leaf ''NUMBER'' ''Percentage value (e.g., 35).''),
                  (''color'', leaf ''STRING''
                     ''A hex color code for the chart slice (e.g., '#e78a53').'')])])]),
      (''disposal_trends'', JObj
         [(''type'', JStr ''ARRAY''),
          (''description'', JStr ''An array of 6 objects for the last 6 months' disposal trends.''),
          (''items'', JObj
             [(''type'', JStr ''OBJECT''),
              (''properties'', JObj
                 [(''month'', leaf ''STRING'' ''Abbreviated month name (e.g., 'Jan').''),
                  (''home'', leaf ''NUMBER'' ''Mock 'Home' disposal value for the month.''),
                  (''industrial'', leaf ''NUMBER''
                     ''Mock 'Industrial' disposal value for the month.'')])])]),
      (''recycling_rates'', JObj
         [(''type'', JStr ''ARRAY''),
          (''description'', JStr ''An array of 5 objects representing mock recycling rates per category for a bar chart.''),
          (''items'', JObj
             [(''type'', JStr ''OBJECT''),
              (''properties'', JObj
                 [(''category'', leaf ''STRING'' ''Waste category (e.g., 'Plastic').''),
                  (''rate'', leaf ''NUMBER'' ''Recycling rate percentage (e.g., 68).'')])])])]"

definition schema_required :: "string list" where
  "schema_required =
     [''waste_type'', ''home_treatment'', ''industry_treatment'', ''stats'',
      ''waste_composition'', ''disposal_trends'', ''recycling_rates'']"

definition schema :: json where
  "schema =
     JObj [(''type'', JStr ''OBJECT''),
           (''properties'', JObj schema_properties),
           (''required'', JArr (map JStr schema_required))]"

definition payload :: "json \<Rightarrow> json" where
  "payload imagePart =
     JObj [(''contents'', JArr
              [JObj [(''role'', JStr ''user''),
                     (''parts'', JArr [JObj [(''text'', JStr userQuery)], imagePart])]]),
           (''systemInstruction'', JObj
              [(''parts'', JArr [JObj [(''text'', JStr systemPrompt)]])]),
           (''generationConfig'', JObj
              [(''responseMimeType'', JStr ''application/json''),
               (''responseSchema'', schema)])]"

text \<open>The argument of every \<open>fetch\<close> call (lines 202-206).\<close>

definition api_request :: "env \<Rightarrow> json \<Rightarrow> request" where
  "api_request e imagePart =
     \<lparr>url = apiUrl, http_method = ''POST'',
      headers = [(''Content-Type'', ''application/json'')],
      body = JSON_stringify e (payload imagePart)\<rparr>"

subsection \<open>The retry loop (lines 196-227)\<close>

record loop_vars =
  response :: "response option"
  retries :: int
  delay :: nat

definition loop_init :: loop_vars where
  "loop_init = \<lparr>response = None, retries = 3, delay = 1000\<rparr>"

text \<open>
  One call is the loop from its test on; \<open>k\<close> counts the \<open>fetch\<close> calls made so far. The
  branches are, in order: \<open>fetch\<close> rejects, so the \<open>catch\<close> block runs; the response is
  ok, \<open>break\<close>; status 429 or at least 500, wait and go on; any other status, where the
  \<open>throw\<close> of line 219 is inside the \<open>try\<close> and lands in the same \<open>catch\<close> block. The
  \<open>catch\<close> block rethrows when \<open>retries\<close> is 1 and otherwise waits, doubles the delay
  and decrements \<open>retries\<close>. The assignment to \<open>response\<close> has happened by the time a
  status is read.
\<close>

function retry_loop :: "env \<Rightarrow> request \<Rightarrow> nat \<Rightarrow> loop_vars \<Rightarrow> loop_vars comp" where
  "retry_loop e req k v =
     (if 0 < retries v then
        (case fetch e k of
           Rejected err \<Rightarrow>
             (if retries v = 1 then ([Fetch req], Thrown err)
              else prepend [Fetch req, Sleep (delay v)]
                     (retry_loop e req (Suc k)
                        (v\<lparr>delay := delay v * 2, retries := retries v - 1\<rparr>)))
         | Resolved r \<Rightarrow>
             (if ok r then ([Fetch req], Done (v\<lparr>response := Some r\<rparr>))
              else if status r = 429 \<or> 500 \<le> status r then
                prepend [Fetch req, Sleep (delay v)]
                  (retry_loop e req (Suc k)
                     (v\<lparr>response := Some r, delay := delay v * 2, retries := retries v - 1\<rparr>))
              else if retries v = 1 then
                ([Fetch req],
                 Thrown (Error (''APIError: '' @ string_of_nat (status r) @ '' '' @ statusText r)))
              else
                prepend [Fetch req, Sleep (delay v)]
                  (retry_loop e req (Suc k)
                     (v\<lparr>response := Some r, delay := delay v * 2, retries := retries v - 1\<rparr>))))
      else ([], Done v))"
  by pat_completeness auto
termination
  by (relation "measure (\<lambda>(e, req, k, v). nat (retries v))") auto

declare retry_loop.simps [simp del]

subsection \<open>handleAnalyze (lines 59-249)\<close>

text \<open>Lines 233-242: read the candidate text out of the response body and parse it.\<close>

definition read_result :: "env \<Rightarrow> json \<Rightarrow> unit comp" where
  "read_result e result =
     bind (lift (member (Some result) ''candidates'')) (\<lambda>candidates.
       let candidate = opt_index0 candidates in
       if \<not> truthy candidate then throw (Error ''Invalid response structure from API.'')
       else
         bind (lift (member candidate ''content'')) (\<lambda>content.
           if truthy (opt_member (opt_index0 (opt_member content ''parts'')) ''text'') then
             bind (lift (member content ''parts'')) (\<lambda>parts.
             bind (lift (index0 parts)) (\<lambda>part.
             bind (lift (member part ''text'')) (\<lambda>jsonText.
             bind (lift (JSON_parse e jsonText)) (\<lambda>parsedJson.
               emit (SetAnalysisResult parsedJson)))))
           else throw (Error ''Invalid response structure from API.'')))"

text \<open>Lines 69-242: the body of the outer \<open>try\<close>.\<close>

definition analyze_try :: "env \<Rightarrow> js_file \<Rightarrow> unit comp" where
  "analyze_try e f =
     bind (fileToGenerativePart e f) (\<lambda>imagePart.
     bind (retry_loop e (api_request e imagePart) 0 loop_init) (\<lambda>v.
       (case response v of
          None \<Rightarrow> throw (type_error ''undefined'' ''ok'')
        | Some r \<Rightarrow>
            if \<not> ok r then
              throw (Error (''Failed to analyze image after retries: '' @ statusText r))
            else bind (lift (body_json r)) (read_result e))))"

text \<open>Lines 243-245: the outer \<open>catch\<close> block.\<close>

definition analyze_catch :: "js_error \<Rightarrow> unit comp" where
  "analyze_catch err =
     ([ConsoleError err,
       SetError (''Failed to analyze image. '' @ message err @ ''. Please try again.'')],
      Done ())"

definition handleAnalyze :: "env \<Rightarrow> page_state \<Rightarrow> unit comp" where
  "handleAnalyze e s =
     (case imageFile s of
        None \<Rightarrow> ([SetError ''Please upload an image first.''], Done ())
      | Some f \<Rightarrow>
          prepend [SetIsLoading True, SetError [], SetAnalysisResult JNull]
            (try_finally (try_catch (analyze_try e f) analyze_catch)
               (emit (SetIsLoading False))))"

subsection \<open>handleFileChange (lines 44-52)\<close>

text \<open>\<open>files\<close> is \<open>e.target.files\<close>; \<open>files[0]\<close> of an empty list is \<open>undefined\<close>, which is
  falsy, and a \<open>File\<close> is truthy.\<close>

definition handleFileChange :: "(js_file \<Rightarrow> string) \<Rightarrow> js_file list \<Rightarrow> unit comp" where
  "handleFileChange createObjectURL files =
     (case nth_opt files 0 of
        Some f \<Rightarrow>
          ([SetImageFile f, SetImagePreview (createObjectURL f),
            SetAnalysisResult JNull, SetError []], Done ())
      | None \<Rightarrow> ([], Done ()))"

subsection \<open>What is rendered (lines 308-357)\<close>

text \<open>
  The parts of the view that depend on the state: the preview image, the
  \<open>disabled\<close> attribute of the Analyze button, the spinner inside it, the error banner
  (\<open>error && ...\<close>) and the dashboard block (\<open>analysisResult && ...\<close>), which is given
  the analysis result. The charts inside the dashboard are not modelled.
\<close>

record view =
  preview_src :: "string option"
  analyze_disabled :: bool
  spinner :: bool
  error_banner :: "string option"
  dashboard :: "json option"

definition render :: "page_state \<Rightarrow> view" where
  "render s =
     \<lparr>preview_src = (if imagePreview s \<noteq> [] then Some (imagePreview s) else None),
      analyze_disabled = (isLoading s \<or> imageFile s = None),
      spinner = isLoading s,
      error_banner = (if error s \<noteq> [] then Some (error s) else None),
      dashboard = (if truthy (Some (analysisResult s)) then Some (analysisResult s) else None)\<rparr>"

subsection \<open>Sequences of handler runs\<close>

text \<open>
  One user action: a change of the file input, with the file list of the event and the
  object URL the browser hands out, or a click on Analyze, with what the browser does
  during that run. A run that waits forever leaves the state its setter calls have
  produced so far.
\<close>

datatype page_op =
    FileChange "js_file \<Rightarrow> string" "js_file list"
  | Analyze env

fun step :: "page_state \<Rightarrow> page_op \<Rightarrow> page_state" where
  "step s (FileChange createObjectURL files) =
     run s (fst (handleFileChange createObjectURL files))"
| "step s (Analyze e) = run s (fst (handleAnalyze e s))"

definition exec :: "page_op list \<Rightarrow> page_state" where
  "exec ops = foldl step initial_state ops"

text \<open>Every run of the sequence, started in \<open>s\<close>, has returned: the page is quiescent.\<close>

fun all_returned :: "page_state \<Rightarrow> page_op list \<Rightarrow> bool" where
  "all_returned s [] = True"
| "all_returned s (FileChange createObjectURL files # ops) =
     all_returned (step s (FileChange createObjectURL files)) ops"
| "all_returned s (Analyze e # ops) =
     (snd (handleAnalyze e s) = Done () \<and> all_returned (step s (Analyze e)) ops)"

subsection \<open>Auxiliary definitions for the statements below\<close>

text \<open>The effects of \<open>handleAnalyze\<close> before the retry loop, once the guard is passed.\<close>

definition analyze_prologue :: "js_file \<Rightarrow> event list" where
  "analyze_prologue f = [SetIsLoading True, SetError [], SetAnalysisResult JNull, ReadFile f]"

text \<open>The longest run of a loop that has \<open>n\<close> attempts left and waits \<open>d\<close> next.\<close>

fun schedule :: "request \<Rightarrow> nat \<Rightarrow> nat \<Rightarrow> event list" where
  "schedule req 0 d = []"
| "schedule req (Suc n) d = Fetch req # Sleep d # schedule req n (d * 2)"

fun is_sleep :: "event \<Rightarrow> bool" where
  "is_sleep (Sleep d) = True"
| "is_sleep ev = False"

text \<open>Concrete inputs: a file, the state after it was chosen, responses, a browser.\<close>

definition demo_file :: js_file where
  "demo_file = \<lparr>file_name = ''bottle.png'', file_type = ''image/png''\<rparr>"

definition demo_state :: page_state where
  "demo_state = step initial_state (FileChange (\<lambda>f. ''blob:bottle'') [demo_file])"

definition demo_body :: json where
  "demo_body =
     JObj [(''candidates'', JArr
       [JObj [(''content'', JObj
          [(''parts'', JArr [JObj [(''text'', JStr ''{}'')]])])]])]"

definition ok_response :: "js_error + json \<Rightarrow> response" where
  "ok_response b = \<lparr>ok = True, status = 200, statusText = ''OK'', body_json = b\<rparr>"

definition failed_response :: "nat \<Rightarrow> string \<Rightarrow> response" where
  "failed_response st txt = \<lparr>ok = False, status = st, statusText = txt, body_json = Inr JNull\<rparr>"

definition demo_env :: "js_file \<Rightarrow> string option \<Rightarrow> (nat \<Rightarrow> fetch_result) \<Rightarrow> env" where
  "demo_env f u fs =
     \<lparr>readAsDataURL = (\<lambda>g. if g = f then u else None),
      fetch = fs,
      JSON_stringify = (\<lambda>j. ''{...}''),
      JSON_parse = (\<lambda>t. if t = Some (JStr ''{}'') then Inr (JObj [])
                          else Inl (Error ''Unexpected token''))\<rparr>"

definition demo_url :: string where
  "demo_url = ''data:image/png;base64,iVBORw0KGgo=''"

text \<open>A browser in which the first call of \<open>fetch\<close> gets a 404 and the second succeeds.\<close>

definition env_404_then_ok :: env where
  "env_404_then_ok =
     demo_env demo_file (Some demo_url)
       (\<lambda>k. if k = 0 then Resolved (failed_response 404 ''Not Found'')
            else Resolved (ok_response (Inr demo_body)))"

text \<open>A browser in which every call of \<open>fetch\<close> gets a 503.\<close>

definition env_503 :: env where
  "env_503 =
     demo_env demo_file (Some demo_url)
       (\<lambda>k. Resolved (failed_response 503 ''Service Unavailable''))"

text \<open>A browser in which the first call of \<open>fetch\<close> succeeds.\<close>

definition env_ok :: env where
  "env_ok = demo_env demo_file (Some demo_url) (\<lambda>k. Resolved (ok_response (Inr demo_body)))"

text \<open>A browser in which every call of \<open>fetch\<close> is rejected.\<close>

definition env_offline :: env where
  "env_offline = demo_env demo_file (Some demo_url) (\<lambda>k. Rejected (Error ''Failed to fetch''))"

text \<open>A browser in which the first call of \<open>fetch\<close> gets a 200 whose body is not JSON.\<close>

definition env_bad_json :: env where
  "env_bad_json =
     demo_env demo_file (Some demo_url)
       (\<lambda>k. Resolved (ok_response (Inl (Error ''Unexpected end of JSON input''))))"


text \<open>A browser in which the file read fails: \<open>reader.result\<close> is \<open>null\<close>.\<close>

definition env_read_failed :: env where
  "env_read_failed =
     demo_env demo_file None (\<lambda>k. Resolved (ok_response (Inr demo_body)))"

text \<open>A browser in which the first two calls of \<open>fetch\<close> are rejected and the third
  succeeds.\<close>

definition env_third_ok :: env where
  "env_third_ok =
     demo_env demo_file (Some demo_url)
       (\<lambda>k. if k < 2 then Rejected (Error ''Failed to fetch'')
            else Resolved (ok_response (Inr demo_body)))"

text \<open>The request of the concrete runs.\<close>

definition demo_request :: "env \<Rightarrow> request" where
  "demo_request e = api_request e (generative_part demo_url demo_file)"

text \<open>An attempt has failed when \<open>fetch\<close> rejects or the response is not ok.\<close>

fun failed_attempt :: "fetch_result \<Rightarrow> bool" where
  "failed_attempt (Rejected err) = True"
| "failed_attempt (Resolved r) = (\<not> ok r)"

section \<open>Properties\<close>

subsection \<open>Effects and the state\<close>

lemma run_Nil: "run s [] = s"
  by (simp add: run_def)

lemma run_Cons: "run s (ev # t) = run (apply_event s ev) t"
  by (simp add: run_def)

lemma run_append: "run s (t @ u) = run (run s t) u"
  by (simp add: run_def)

lemma run_no_setter: "\<forall>ev \<in> set t. \<not> is_setter ev \<Longrightarrow> run s t = s"
proof (induction t arbitrary: s)
  case Nil
  show ?case by (simp add: run_Nil)
next
  case (Cons a t)
  have "apply_event s a = s" using Cons.prems by (cases a) simp_all
  with Cons show ?case by (simp add: run_Cons)
qed

lemma fst_prepend: "fst (prepend t m) = t @ fst m"
  by (simp add: prepend_def)

lemma snd_prepend: "snd (prepend t m) = snd m"
  by (simp add: prepend_def)

subsection \<open>The retry loop\<close>

lemma prefix_schedule_step:
  assumes "0 < n" and "prefix t (schedule req (nat (n - 1)) (d * 2))"
  shows "prefix (Fetch req # Sleep d # t) (schedule req (nat n) d)"
proof -
  from assms(1) have "nat n = Suc (nat (n - 1))" by simp
  with assms(2) show ?thesis by simp
qed

lemma prefix_schedule_one:
  assumes "0 < n"
  shows "prefix [Fetch req] (schedule req (nat n) d)"
proof -
  from assms have "nat n = Suc (nat (n - 1))" by simp
  then show ?thesis by simp
qed

text \<open>Whatever the browser answers, the loop performs an initial part of the schedule
  that its counter and its delay determine.\<close>

lemma retry_loop_schedule:
  "prefix (fst (retry_loop e req k v)) (schedule req (nat (retries v)) (delay v))"
proof (induction e req k v rule: retry_loop.induct)
  case (1 e req k v)
  show ?case
  proof (cases "0 < retries v")
    case False
    then show ?thesis by (simp add: retry_loop.simps [of e req k v])
  next
    case True
    note pos = this
    show ?thesis
    proof (cases "fetch e k")
      case (Rejected err)
      show ?thesis
      proof (cases "retries v = 1")
        case True
        with pos Rejected show ?thesis
          using prefix_schedule_one [OF pos, of req "delay v"]
          by (simp add: retry_loop.simps [of e req k v])
      next
        case False
        from "1.IH"(1) [OF pos Rejected False]
        have "prefix (fst (retry_loop e req (Suc k)
                 (v\<lparr>delay := delay v * 2, retries := retries v - 1\<rparr>)))
                (schedule req (nat (retries v - 1)) (delay v * 2))" by simp
        from prefix_schedule_step [OF pos this] pos Rejected False show ?thesis
          by (simp add: retry_loop.simps [of e req k v] fst_prepend)
      qed
    next
      case (Resolved r)
      show ?thesis
      proof (cases "ok r")
        case True
        with pos Resolved show ?thesis
          using prefix_schedule_one [OF pos, of req "delay v"]
          by (simp add: retry_loop.simps [of e req k v])
      next
        case nok: False
        show ?thesis
        proof (cases "status r = 429 \<or> 500 \<le> status r")
          case True
          from "1.IH"(2) [OF pos Resolved nok True]
          have "prefix (fst (retry_loop e req (Suc k)
                   (v\<lparr>response := Some r, delay := delay v * 2, retries := retries v - 1\<rparr>)))
                  (schedule req (nat (retries v - 1)) (delay v * 2))" by simp
          from prefix_schedule_step [OF pos this] pos Resolved nok True show ?thesis
            by (simp add: retry_loop.simps [of e req k v] fst_prepend)
        next
          case client: False
          show ?thesis
          proof (cases "retries v = 1")
            case True
            with pos Resolved nok client show ?thesis
              using prefix_schedule_one [OF pos, of req "delay v"]
              by (simp add: retry_loop.simps [of e req k v])
          next
            case False
            from "1.IH"(3) [OF pos Resolved nok client False]
            have "prefix (fst (retry_loop e req (Suc k)
                     (v\<lparr>response := Some r, delay := delay v * 2, retries := retries v - 1\<rparr>)))
                    (schedule req (nat (retries v - 1)) (delay v * 2))" by simp
            from prefix_schedule_step [OF pos this] pos Resolved nok client False
            show ?thesis
              by (simp add: retry_loop.simps [of e req k v] fst_prepend)
          qed
        qed
      qed
    qed
  qed
qed

lemma retry_loop_not_pending: "snd (retry_loop e req k v) \<noteq> Pending"
proof (induction e req k v rule: retry_loop.induct)
  case (1 e req k v)
  then show ?case
    by (simp add: retry_loop.simps [of e req k v] snd_prepend split: fetch_result.splits)
qed

subsection \<open>The shape of a run of handleAnalyze\<close>

lemma read_result_cases:
  "(\<exists>j. read_result e result = ([SetAnalysisResult j], Done ())) \<or>
   (\<exists>err. read_result e result = ([], Thrown err))"
  by (auto simp: read_result_def bind_def lift_def throw_def emit_def prepend_def Let_def
           split: sum.splits)

lemma analyze_try_read_failed:
  "readAsDataURL e f = None \<Longrightarrow> analyze_try e f = ([ReadFile f], Pending)"
  by (simp add: analyze_try_def fileToGenerativePart_def bind_def)

lemma analyze_try_cases:
  assumes "readAsDataURL e f = Some u"
  shows "(\<exists>j. analyze_try e f =
            (ReadFile f # fst (retry_loop e (api_request e (generative_part u f)) 0 loop_init)
               @ [SetAnalysisResult j], Done ())) \<or>
         (\<exists>err. analyze_try e f =
            (ReadFile f # fst (retry_loop e (api_request e (generative_part u f)) 0 loop_init),
             Thrown err))"
proof -
  let ?L = "retry_loop e (api_request e (generative_part u f)) 0 loop_init"
  have np: "snd ?L \<noteq> Pending" by (rule retry_loop_not_pending)
  show ?thesis
  proof (cases "snd ?L")
    case Pending
    with np show ?thesis by simp
  next
    case (Thrown err)
    with assms show ?thesis
      by (simp add: analyze_try_def fileToGenerativePart_def bind_def prepend_def)
  next
    case (Done v)
    show ?thesis
    proof (cases "response v")
      case None
      with Done assms show ?thesis
        by (simp add: analyze_try_def fileToGenerativePart_def bind_def prepend_def throw_def)
    next
      case (Some r)
      show ?thesis
      proof (cases "ok r")
        case False
        with Some Done assms show ?thesis
          by (simp add: analyze_try_def fileToGenerativePart_def bind_def prepend_def throw_def)
      next
        case True
        show ?thesis
        proof (cases "body_json r")
          case (Inl err)
          with True Some Done assms show ?thesis
            by (simp add: analyze_try_def fileToGenerativePart_def bind_def prepend_def lift_def)
        next
          case (Inr result)
          from read_result_cases [of e result] Inr True Some Done assms show ?thesis
            by (auto simp: analyze_try_def fileToGenerativePart_def bind_def prepend_def lift_def)
        qed
      qed
    qed
  qed
qed

lemma handleAnalyze_no_file:
  "imageFile s = None \<Longrightarrow>
     handleAnalyze e s = ([SetError ''Please upload an image first.''], Done ())"
  by (simp add: handleAnalyze_def)

lemma handleAnalyze_read_failed:
  "imageFile s = Some f \<Longrightarrow> readAsDataURL e f = None \<Longrightarrow>
     handleAnalyze e s = (analyze_prologue f, Pending)"
  by (simp add: handleAnalyze_def analyze_try_read_failed try_catch_def try_finally_def
        prepend_def analyze_prologue_def)

lemma handleAnalyze_cases:
  assumes "imageFile s = Some f" and "readAsDataURL e f = Some u"
  shows "(\<exists>j. analyze_try e f =
            (ReadFile f # fst (retry_loop e (api_request e (generative_part u f)) 0 loop_init)
               @ [SetAnalysisResult j], Done ()) \<and>
          handleAnalyze e s =
            (analyze_prologue f
               @ fst (retry_loop e (api_request e (generative_part u f)) 0 loop_init)
               @ [SetAnalysisResult j, SetIsLoading False], Done ())) \<or>
         (\<exists>err. analyze_try e f =
            (ReadFile f # fst (retry_loop e (api_request e (generative_part u f)) 0 loop_init),
             Thrown err) \<and>
          handleAnalyze e s =
            (analyze_prologue f
               @ fst (retry_loop e (api_request e (generative_part u f)) 0 loop_init)
               @ [ConsoleError err,
                  SetError (''Failed to analyze image. '' @ message err @ ''. Please try again.''),
                  SetIsLoading False], Done ()))"
  using analyze_try_cases [OF assms(2)] assms(1)
  by (auto simp: handleAnalyze_def try_catch_def try_finally_def prepend_def emit_def
        analyze_catch_def analyze_prologue_def)

subsection \<open>Events of the loop\<close>

lemma schedule_events: "ev \<in> set (schedule req n d) \<Longrightarrow> ev = Fetch req \<or> is_sleep ev"
  by (induction n arbitrary: d) auto

lemma retry_loop_events:
  assumes "ev \<in> set (fst (retry_loop e req k v))"
  shows "ev = Fetch req \<or> is_sleep ev"
proof -
  from retry_loop_schedule [of e req k v] assms
  have "ev \<in> set (schedule req (nat (retries v)) (delay v))"
    using set_mono_prefix by blast
  then show ?thesis by (rule schedule_events)
qed

lemma retry_loop_no_setter: "\<forall>ev \<in> set (fst (retry_loop e req k v)). \<not> is_setter ev"
proof
  fix ev assume "ev \<in> set (fst (retry_loop e req k v))"
  from retry_loop_events [OF this] show "\<not> is_setter ev" by (cases ev) auto
qed

lemma run_retry_loop: "run s (fst (retry_loop e req k v)) = s"
  by (rule run_no_setter [OF retry_loop_no_setter])

lemma loop_init_schedule:
  "prefix (fst (retry_loop e req 0 loop_init))
     [Fetch req, Sleep 1000, Fetch req, Sleep 2000, Fetch req, Sleep 4000]"
proof -
  have "schedule req (nat (retries loop_init)) (delay loop_init) =
          [Fetch req, Sleep 1000, Fetch req, Sleep 2000, Fetch req, Sleep 4000]"
    by (simp add: loop_init_def numeral_3_eq_3)
  with retry_loop_schedule [of e req 0 loop_init] show ?thesis by simp
qed

lemma prefix_filter_length:
  assumes "prefix xs ys"
  shows "length (filter P xs) \<le> length (filter P ys)"
proof -
  from assms obtain zs where "ys = xs @ zs" by (auto simp: prefix_def)
  then show ?thesis by simp
qed

lemma loop_init_fetches:
  "length (filter is_fetch (fst (retry_loop e req 0 loop_init))) \<le> 3"
  using prefix_filter_length [OF loop_init_schedule, of is_fetch e req] by simp

lemma filter_id: "\<forall>x \<in> set xs. P x \<Longrightarrow> filter P xs = xs"
  by (induction xs) auto

lemma loop_filter_net:
  "filter (\<lambda>ev. is_fetch ev \<or> is_sleep ev) (fst (retry_loop e req k v)) =
     fst (retry_loop e req k v)"
proof (rule filter_id, rule ballI)
  fix ev assume "ev \<in> set (fst (retry_loop e req k v))"
  from retry_loop_events [OF this] show "is_fetch ev \<or> is_sleep ev" by auto
qed

subsection \<open>The state after a run of handleAnalyze\<close>

lemma run_handleAnalyze_frame:
  "imageFile (run s (fst (handleAnalyze e s))) = imageFile s \<and>
   imagePreview (run s (fst (handleAnalyze e s))) = imagePreview s"
proof (cases "imageFile s")
  case None
  then show ?thesis by (simp add: handleAnalyze_no_file run_Cons run_Nil)
next
  case (Some f)
  show ?thesis
  proof (cases "readAsDataURL e f")
    case None
    from handleAnalyze_read_failed [OF Some None] show ?thesis
      by (simp add: analyze_prologue_def run_Cons run_Nil)
  next
    case (Some u)
    from handleAnalyze_cases [OF \<open>imageFile s = Some f\<close> Some] show ?thesis
      by (auto simp: analyze_prologue_def run_Cons run_Nil run_append run_retry_loop)
  qed
qed

lemma run_handleAnalyze_cases:
  assumes "imageFile s = Some f"
  shows "(snd (handleAnalyze e s) = Pending \<and> readAsDataURL e f = None \<and>
            isLoading (run s (fst (handleAnalyze e s))) \<and>
            error (run s (fst (handleAnalyze e s))) = [] \<and>
            analysisResult (run s (fst (handleAnalyze e s))) = JNull) \<or>
         (snd (handleAnalyze e s) = Done () \<and> snd (analyze_try e f) = Done () \<and>
            \<not> isLoading (run s (fst (handleAnalyze e s))) \<and>
            error (run s (fst (handleAnalyze e s))) = []) \<or>
         (\<exists>err. snd (handleAnalyze e s) = Done () \<and> snd (analyze_try e f) = Thrown err \<and>
            \<not> isLoading (run s (fst (handleAnalyze e s))) \<and>
            error (run s (fst (handleAnalyze e s))) =
              ''Failed to analyze image. '' @ message err @ ''. Please try again.'' \<and>
            analysisResult (run s (fst (handleAnalyze e s))) = JNull)"
proof (cases "readAsDataURL e f")
  case None
  from handleAnalyze_read_failed [OF assms None] None show ?thesis
    by (simp add: analyze_prologue_def run_Cons run_Nil)
next
  case (Some u)
  from handleAnalyze_cases [OF assms Some] show ?thesis
    by (auto simp: analyze_prologue_def run_Cons run_Nil run_append run_retry_loop)
qed

subsection \<open>The concrete inputs evaluated\<close>

lemma demo_state_eq:
  "demo_state = \<lparr>imageFile = Some demo_file, imagePreview = ''blob:bottle'',
     analysisResult = JNull, isLoading = False, error = []\<rparr>"
  by (simp add: demo_state_def handleFileChange_def nth_opt_def run_Cons run_Nil initial_state_def)

lemma demo_generative_part:
  "generative_part demo_url demo_file =
     JObj [(''inlineData'', JObj [(''data'', JStr ''iVBORw0KGgo=''), (''mimeType'', JStr ''image/png'')])]"
  by (simp add: generative_part_def demo_url_def demo_file_def nth_opt_def)

lemma loop_404_then_ok:
  "retry_loop env_404_then_ok req 0 loop_init =
     ([Fetch req, Sleep 1000, Fetch req],
      Done \<lparr>response = Some (ok_response (Inr demo_body)), retries = 2, delay = 2000\<rparr>)"
  by (simp add: retry_loop.simps loop_init_def env_404_then_ok_def demo_env_def
        failed_response_def ok_response_def prepend_def)

lemma loop_503:
  "retry_loop env_503 req 0 loop_init =
     ([Fetch req, Sleep 1000, Fetch req, Sleep 2000, Fetch req, Sleep 4000],
      Done \<lparr>response = Some (failed_response 503 ''Service Unavailable''), retries = 0, delay = 8000\<rparr>)"
  by (simp add: retry_loop.simps loop_init_def env_503_def demo_env_def
        failed_response_def ok_response_def prepend_def)

lemma read_demo_body:
  "read_result (demo_env f u fs) demo_body = ([SetAnalysisResult (JObj [])], Done ())"
  by (simp add: read_result_def demo_body_def demo_env_def bind_def lift_def prepend_def
        emit_def throw_def opt_index0_def opt_member_def nullish_def)

subsection \<open>Network effects and the loading flag\<close>

lemma handleAnalyze_net:
  "\<exists>req. prefix (filter (\<lambda>ev. is_fetch ev \<or> is_sleep ev) (fst (handleAnalyze e s)))
            [Fetch req, Sleep 1000, Fetch req, Sleep 2000, Fetch req, Sleep 4000] \<and>
         (\<forall>q. Fetch q \<in> set (fst (handleAnalyze e s)) \<longrightarrow> q = req) \<and>
         (\<forall>f u. imageFile s = Some f \<and> readAsDataURL e f = Some u \<longrightarrow>
                 req = api_request e (generative_part u f))"
proof (cases "imageFile s")
  case None
  then show ?thesis by (simp add: handleAnalyze_no_file)
next
  case (Some f)
  show ?thesis
  proof (cases "readAsDataURL e f")
    case None
    from handleAnalyze_read_failed [OF Some None] Some None show ?thesis
      by (simp add: analyze_prologue_def)
  next
    case (Some u)
    let ?req = "api_request e (generative_part u f)"
    let ?L = "fst (retry_loop e ?req 0 loop_init)"
    have L: "filter (\<lambda>ev. is_fetch ev \<or> is_sleep ev) ?L = ?L" by (rule loop_filter_net)
    have P: "prefix ?L [Fetch ?req, Sleep 1000, Fetch ?req, Sleep 2000, Fetch ?req, Sleep 4000]"
      by (rule loop_init_schedule)
    have F: "\<forall>q. Fetch q \<in> set ?L \<longrightarrow> q = ?req"
      using retry_loop_events [of _ e ?req 0 loop_init] by fastforce
    from handleAnalyze_cases [OF \<open>imageFile s = Some f\<close> Some]
    have "filter (\<lambda>ev. is_fetch ev \<or> is_sleep ev) (fst (handleAnalyze e s)) = ?L \<and>
          (\<forall>q. Fetch q \<in> set (fst (handleAnalyze e s)) \<longrightarrow> Fetch q \<in> set ?L)"
      using L by (auto simp: analyze_prologue_def)
    with P F \<open>imageFile s = Some f\<close> Some show ?thesis by auto
  qed
qed

lemma handleAnalyze_fetch_filter:
  "\<exists>req. prefix (filter is_fetch (fst (handleAnalyze e s))) [Fetch req, Fetch req, Fetch req]"
proof -
  from handleAnalyze_net [of e s] obtain req where
    "prefix (filter (\<lambda>ev. is_fetch ev \<or> is_sleep ev) (fst (handleAnalyze e s)))
            [Fetch req, Sleep 1000, Fetch req, Sleep 2000, Fetch req, Sleep 4000]" by blast
  then obtain zs where
    "[Fetch req, Sleep 1000, Fetch req, Sleep 2000, Fetch req, Sleep 4000] =
       filter (\<lambda>ev. is_fetch ev \<or> is_sleep ev) (fst (handleAnalyze e s)) @ zs"
    by (auto simp: prefix_def)
  then have "filter is_fetch [Fetch req, Sleep 1000, Fetch req, Sleep 2000, Fetch req, Sleep 4000] =
       filter is_fetch (filter (\<lambda>ev. is_fetch ev \<or> is_sleep ev) (fst (handleAnalyze e s)) @ zs)"
    by simp
  then have "[Fetch req, Fetch req, Fetch req] =
       filter is_fetch (fst (handleAnalyze e s)) @ filter is_fetch zs"
    by (simp add: conj_commute cong: conj_cong)
  then show ?thesis by (auto simp: prefix_def)
qed

lemma isLoading_stays:
  "isLoading s \<Longrightarrow> SetIsLoading False \<notin> set t \<Longrightarrow> isLoading (run s t)"
proof (induction t arbitrary: s)
  case Nil
  then show ?case by (simp add: run_Nil)
next
  case (Cons a t)
  have "isLoading (apply_event s a)" using Cons.prems by (cases a) auto
  with Cons show ?case by (simp add: run_Cons)
qed

lemma retry_loop_no_reset: "SetIsLoading False \<notin> set (fst (retry_loop e req k v))"
  using retry_loop_events [of "SetIsLoading False" e req k v] by auto

lemma handleAnalyze_loading_shape:
  assumes "imageFile s = Some f"
  shows "\<exists>X. SetIsLoading False \<notin> set X \<and>
           ((readAsDataURL e f = None \<and> handleAnalyze e s = (SetIsLoading True # X, Pending) \<and>
               (\<forall>ev \<in> set X. \<not> is_fetch ev)) \<or>
            (readAsDataURL e f \<noteq> None \<and>
               handleAnalyze e s = (SetIsLoading True # X @ [SetIsLoading False], Done ())))"
proof (cases "readAsDataURL e f")
  case None
  from handleAnalyze_read_failed [OF assms None] None show ?thesis
    by (simp add: analyze_prologue_def)
next
  case (Some u)
  let ?L = "fst (retry_loop e (api_request e (generative_part u f)) 0 loop_init)"
  have nr: "SetIsLoading False \<notin> set ?L" by (rule retry_loop_no_reset)
  from handleAnalyze_cases [OF assms Some] show ?thesis
  proof (elim disjE exE conjE)
    fix j
    assume "handleAnalyze e s =
      (analyze_prologue f @ ?L @ [SetAnalysisResult j, SetIsLoading False], Done ())"
    then have "handleAnalyze e s =
      (SetIsLoading True # ([SetError [], SetAnalysisResult JNull, ReadFile f] @ ?L
          @ [SetAnalysisResult j]) @ [SetIsLoading False], Done ())"
      by (simp add: analyze_prologue_def)
    moreover have "SetIsLoading False \<notin>
        set ([SetError [], SetAnalysisResult JNull, ReadFile f] @ ?L @ [SetAnalysisResult j])"
      using nr by simp
    ultimately show ?thesis using Some by blast
  next
    fix err
    let ?m = "''Failed to analyze image. '' @ message err @ ''. Please try again.''"
    assume "handleAnalyze e s =
      (analyze_prologue f @ ?L @ [ConsoleError err, SetError ?m, SetIsLoading False], Done ())"
    then have "handleAnalyze e s =
      (SetIsLoading True # ([SetError [], SetAnalysisResult JNull, ReadFile f] @ ?L
          @ [ConsoleError err, SetError ?m]) @ [SetIsLoading False], Done ())"
      by (simp add: analyze_prologue_def)
    moreover have "SetIsLoading False \<notin>
        set ([SetError [], SetAnalysisResult JNull, ReadFile f] @ ?L
               @ [ConsoleError err, SetError ?m])"
      using nr by simp
    ultimately show ?thesis using Some by blast
  qed
qed

lemma loading_at_fetch:
  assumes t: "SetIsLoading True # X @ fin = pre @ Fetch q # post"
    and X: "SetIsLoading False \<notin> set X"
    and fin: "fin = [] \<or> fin = [SetIsLoading False]"
  shows "isLoading (run s pre)"
proof -
  from t obtain pre' where pre: "pre = SetIsLoading True # pre'"
    by (cases pre) auto
  with t have eq: "X @ fin = pre' @ Fetch q # post" by simp
  have "set pre' \<subseteq> set X"
  proof (cases "fin = []")
    case True
    with eq show ?thesis by auto
  next
    case False
    with fin have fin': "fin = [SetIsLoading False]" by simp
    show ?thesis
    proof (cases post rule: rev_cases)
      case Nil
      with eq fin' have "X @ [SetIsLoading False] = pre' @ [Fetch q]" by simp
      then show ?thesis by simp
    next
      case (snoc ys y)
      with eq fin' have "X @ [SetIsLoading False] = (pre' @ Fetch q # ys) @ [y]" by simp
      then have "X = pre' @ Fetch q # ys" by (simp only: append1_eq_conv)
      then show ?thesis by auto
    qed
  qed
  with X have "SetIsLoading False \<notin> set pre'" by auto
  then have "isLoading (run (apply_event s (SetIsLoading True)) pre')"
    by (intro isLoading_stays) simp_all
  with pre show ?thesis by (simp add: run_Cons)
qed

lemma run_env_ok:
  "handleAnalyze env_ok demo_state =
     ([SetIsLoading True, SetError [], SetAnalysisResult JNull, ReadFile demo_file,
       Fetch (api_request env_ok (generative_part demo_url demo_file)),
       SetAnalysisResult (JObj []), SetIsLoading False], Done ())"
proof -
  have env: "readAsDataURL env_ok demo_file = Some demo_url"
    "fetch env_ok 0 = Resolved (ok_response (Inr demo_body))"
    by (simp_all add: env_ok_def demo_env_def)
  have loop: "retry_loop env_ok req 0 loop_init =
      ([Fetch req], Done (loop_init\<lparr>response := Some (ok_response (Inr demo_body))\<rparr>))" for req
    by (simp add: retry_loop.simps env loop_init_def ok_response_def)
  have rr: "read_result env_ok demo_body = ([SetAnalysisResult (JObj [])], Done ())"
    unfolding env_ok_def by (rule read_demo_body)
  have "analyze_try env_ok demo_file =
     ([ReadFile demo_file, Fetch (api_request env_ok (generative_part demo_url demo_file)),
       SetAnalysisResult (JObj [])], Done ())"
    by (simp add: analyze_try_def fileToGenerativePart_def env loop rr bind_def prepend_def
          lift_def ok_response_def)
  then show ?thesis
    by (simp add: handleAnalyze_def demo_state_eq try_catch_def try_finally_def prepend_def
          emit_def)
qed

subsection \<open>Failing runs\<close>

lemma loop_three_rejections:
  assumes "fetch e 0 = Rejected e0" and "fetch e 1 = Rejected e1" and "fetch e 2 = Rejected e2"
  shows "retry_loop e req 0 loop_init =
           ([Fetch req, Sleep 1000, Fetch req, Sleep 2000, Fetch req], Thrown e2)"
proof -
  from assms have "fetch e (Suc 0) = Rejected e1" "fetch e (Suc (Suc 0)) = Rejected e2"
    by (simp_all add: numeral_2_eq_2)
  with assms(1) show ?thesis
    by (simp add: retry_loop.simps loop_init_def prepend_def)
qed

lemma loop_three_server_errors:
  assumes "fetch e 0 = Resolved r0" and "fetch e 1 = Resolved r1" and "fetch e 2 = Resolved r2"
    and "\<not> ok r0" "status r0 = 429 \<or> 500 \<le> status r0"
    and "\<not> ok r1" "status r1 = 429 \<or> 500 \<le> status r1"
    and "\<not> ok r2" "status r2 = 429 \<or> 500 \<le> status r2"
  shows "retry_loop e req 0 loop_init =
           ([Fetch req, Sleep 1000, Fetch req, Sleep 2000, Fetch req, Sleep 4000],
            Done \<lparr>response = Some r2, retries = 0, delay = 8000\<rparr>)"
proof -
  from assms have "fetch e (Suc 0) = Resolved r1" "fetch e (Suc (Suc 0)) = Resolved r2"
    by (simp_all add: numeral_2_eq_2)
  with assms(1,4-) show ?thesis
    by (simp add: retry_loop.simps loop_init_def prepend_def)
qed

lemma loop_first_ok:
  assumes "fetch e 0 = Resolved r" and "ok r"
  shows "retry_loop e req 0 loop_init =
           ([Fetch req], Done \<lparr>response = Some r, retries = 3, delay = 1000\<rparr>)"
  using assms by (simp add: retry_loop.simps loop_init_def)

text \<open>The three kinds of failing run: every call of fetch is rejected; every response is
  a 429 or a 5xx; the response is ok and its body is not JSON, or is JSON of another
  shape, or holds a text that does not parse.\<close>

lemma analyze_try_network_error:
  assumes "readAsDataURL e f = Some u"
    and "fetch e 0 = Rejected e0" and "fetch e 1 = Rejected e1" and "fetch e 2 = Rejected e2"
  shows "snd (analyze_try e f) = Thrown e2"
  using assms(1) loop_three_rejections [OF assms(2-4)]
  by (simp add: analyze_try_def fileToGenerativePart_def bind_def prepend_def)

lemma analyze_try_status_after_loop:
  assumes "readAsDataURL e f = Some u"
    and "fetch e 0 = Resolved r0" and "fetch e 1 = Resolved r1" and "fetch e 2 = Resolved r2"
    and "\<not> ok r0" "status r0 = 429 \<or> 500 \<le> status r0"
    and "\<not> ok r1" "status r1 = 429 \<or> 500 \<le> status r1"
    and "\<not> ok r2" "status r2 = 429 \<or> 500 \<le> status r2"
  shows "snd (analyze_try e f) =
           Thrown (Error (''Failed to analyze image after retries: '' @ statusText r2))"
  using assms(1,9) loop_three_server_errors [OF assms(2-)]
  by (simp add: analyze_try_def fileToGenerativePart_def bind_def prepend_def throw_def)

lemma analyze_try_body_not_json:
  assumes "readAsDataURL e f = Some u" and "fetch e 0 = Resolved r" and "ok r"
    and "body_json r = Inl err"
  shows "snd (analyze_try e f) = Thrown err"
  using assms(1,3,4) loop_first_ok [OF assms(2,3)]
  by (simp add: analyze_try_def fileToGenerativePart_def bind_def prepend_def lift_def)

lemma analyze_try_no_candidates:
  assumes "readAsDataURL e f = Some u" and "fetch e 0 = Resolved r" and "ok r"
    and "body_json r = Inr (JObj kvs)" and "map_of kvs ''candidates'' = None"
  shows "snd (analyze_try e f) = Thrown (Error ''Invalid response structure from API.'')"
  using assms(1,3,4,5) loop_first_ok [OF assms(2,3)]
  by (simp add: analyze_try_def fileToGenerativePart_def bind_def prepend_def lift_def
        read_result_def opt_index0_def nullish_def throw_def)

lemma analyze_try_text_not_json:
  assumes "readAsDataURL e f = Some u" and "fetch e 0 = Resolved r" and "ok r"
    and "body_json r =
           Inr (JObj [(''candidates'', JArr
             [JObj [(''content'', JObj [(''parts'', JArr [JObj [(''text'', JStr t)]])])]])])"
    and "t \<noteq> []" and "JSON_parse e (Some (JStr t)) = Inl err"
  shows "snd (analyze_try e f) = Thrown err"
  using assms(1,3,4,5,6) loop_first_ok [OF assms(2,3)]
  by (simp add: analyze_try_def fileToGenerativePart_def bind_def prepend_def lift_def
        read_result_def opt_index0_def opt_member_def nullish_def throw_def)



lemma env_503_throws:
  "snd (analyze_try env_503 demo_file) =
     Thrown (Error ''Failed to analyze image after retries: Service Unavailable'')"
proof -
  have "snd (analyze_try env_503 demo_file) =
     Thrown (Error (''Failed to analyze image after retries: ''
        @ statusText (failed_response 503 ''Service Unavailable'')))"
    by (rule analyze_try_status_after_loop [where u = demo_url
          and ?r0.0 = "failed_response 503 ''Service Unavailable''"
          and ?r1.0 = "failed_response 503 ''Service Unavailable''"])
       (simp_all add: env_503_def demo_env_def failed_response_def)
  then show ?thesis by (simp add: failed_response_def)
qed

lemma env_offline_throws:
  "snd (analyze_try env_offline demo_file) = Thrown (Error ''Failed to fetch'')"
  by (rule analyze_try_network_error [where u = demo_url])
     (simp_all add: env_offline_def demo_env_def)

lemma env_bad_json_throws:
  "snd (analyze_try env_bad_json demo_file) = Thrown (Error ''Unexpected end of JSON input'')"
  by (rule analyze_try_body_not_json [where u = demo_url
        and r = "ok_response (Inl (Error ''Unexpected end of JSON input''))"])
     (simp_all add: env_bad_json_def demo_env_def ok_response_def)

subsection \<open>Sequences of runs\<close>

text \<open>What holds of the state after every sequence of handler runs: a result is stored
  only while a file is stored and the error message is empty.\<close>

lemma step_invariant:
  assumes "imageFile s = None \<longrightarrow> analysisResult s = JNull"
    and "error s \<noteq> [] \<longrightarrow> analysisResult s = JNull"
  shows "(imageFile (step s op) = None \<longrightarrow> analysisResult (step s op) = JNull) \<and>
         (error (step s op) \<noteq> [] \<longrightarrow> analysisResult (step s op) = JNull)"
proof (cases op)
  case (FileChange u files)
  show ?thesis
  proof (cases files)
    case Nil
    with FileChange assms show ?thesis
      by (simp add: handleFileChange_def nth_opt_def run_Nil)
  next
    case (Cons f fs)
    with FileChange show ?thesis
      by (simp add: handleFileChange_def nth_opt_def run_Cons run_Nil)
  qed
next
  case (Analyze e)
  show ?thesis
  proof (cases "imageFile s")
    case None
    with Analyze assms show ?thesis
      by (simp add: handleAnalyze_no_file run_Cons run_Nil)
  next
    case (Some f)
    from run_handleAnalyze_cases [OF Some, of e] run_handleAnalyze_frame [of s e] Some Analyze
    show ?thesis by auto
  qed
qed

lemma exec_snoc: "exec (ops @ [op]) = step (exec ops) op"
  by (simp add: exec_def)

lemma exec_invariant:
  "(imageFile (exec ops) = None \<longrightarrow> analysisResult (exec ops) = JNull) \<and>
   (error (exec ops) \<noteq> [] \<longrightarrow> analysisResult (exec ops) = JNull)"
proof (induction ops rule: rev_induct)
  case Nil
  show ?case by (simp add: exec_def initial_state_def)
next
  case (snoc op ops)
  then have a: "imageFile (exec ops) = None \<longrightarrow> analysisResult (exec ops) = JNull"
    and b: "error (exec ops) \<noteq> [] \<longrightarrow> analysisResult (exec ops) = JNull" by simp_all
  from step_invariant [OF a b, of op] show ?case by (simp only: exec_snoc)
qed

lemma run_env_503:
  "handleAnalyze env_503 demo_state =
     (analyze_prologue demo_file @
      [Fetch (api_request env_503 (generative_part demo_url demo_file)), Sleep 1000,
       Fetch (api_request env_503 (generative_part demo_url demo_file)), Sleep 2000,
       Fetch (api_request env_503 (generative_part demo_url demo_file)), Sleep 4000,
       ConsoleError (Error ''Failed to analyze image after retries: Service Unavailable''),
       SetError ''Failed to analyze image. Failed to analyze image after retries: Service Unavailable. Please try again.'',
       SetIsLoading False], Done ())"
proof -
  have f: "imageFile demo_state = Some demo_file" by (simp add: demo_state_eq)
  have u: "readAsDataURL env_503 demo_file = Some demo_url"
    by (simp add: env_503_def demo_env_def)
  from handleAnalyze_cases [OF f u] env_503_throws show ?thesis
    by (auto simp: loop_503)
qed

lemma exec_failed_analysis:
  "error (exec [FileChange (\<lambda>f. ''blob:bottle'') [demo_file], Analyze env_503]) =
     ''Failed to analyze image. Failed to analyze image after retries: Service Unavailable. Please try again.''"
proof -
  have "exec [FileChange (\<lambda>f. ''blob:bottle'') [demo_file], Analyze env_503] =
          run demo_state (fst (handleAnalyze env_503 demo_state))"
    by (simp add: exec_def demo_state_def)
  then show ?thesis
    by (simp add: run_env_503 analyze_prologue_def run_Cons run_Nil)
qed

text \<open>A result can be stored: the invariant is not empty of content.\<close>

lemma exec_successful_analysis:
  "analysisResult (exec [FileChange (\<lambda>f. ''blob:bottle'') [demo_file], Analyze env_ok]) = JObj [] \<and>
   error (exec [FileChange (\<lambda>f. ''blob:bottle'') [demo_file], Analyze env_ok]) = []"
proof -
  have "exec [FileChange (\<lambda>f. ''blob:bottle'') [demo_file], Analyze env_ok] =
          run demo_state (fst (handleAnalyze env_ok demo_state))"
    by (simp add: exec_def demo_state_def)
  then show ?thesis
    by (simp add: run_env_ok run_Cons run_Nil)
qed

subsection \<open>The request\<close>

lemma split_on_no_sep: "c \<notin> set xs \<Longrightarrow> split_on c xs = [xs]"
  by (induction xs) auto

lemma split_on_first_sep:
  "c \<notin> set xs \<Longrightarrow> split_on c (xs @ c # ys) = xs # split_on c ys"
  by (induction xs) auto

lemma generative_part_data_url:
  assumes "CHR '','' \<notin> set hdr" and "CHR '','' \<notin> set b64"
  shows "generative_part (hdr @ CHR '','' # b64) f =
           JObj [(''inlineData'', JObj [(''data'', JStr b64), (''mimeType'', JStr (file_type f))])]"
  using assms
  by (simp add: generative_part_def split_on_first_sep split_on_no_sep nth_opt_def)

lemma apiUrl_text:
  "apiUrl = ''https://generativelanguage.googleapis.com/v1beta/models/gemini-2.5-flash-preview-09-2025:generateContent?key=''"
  by (simp add: apiUrl_def apiKey_def)

lemma schema_required_fields:
  "member (Some schema) ''required'' =
     Inr (Some (JArr [JStr ''waste_type'', JStr ''home_treatment'', JStr ''industry_treatment'',
                      JStr ''stats'', JStr ''waste_composition'', JStr ''disposal_trends'',
                      JStr ''recycling_rates'']))"
  by (simp add: schema_def schema_required_def)

lemma schema_property_names:
  "map fst schema_properties =
     [''waste_type'', ''home_treatment'', ''industry_treatment'', ''stats'',
      ''waste_composition'', ''disposal_trends'', ''recycling_rates'']"
  by (simp add: schema_properties_def)

lemma payload_parts:
  "member (Some (payload p)) ''contents'' =
     Inr (Some (JArr [JObj [(''role'', JStr ''user''),
                            (''parts'', JArr [JObj [(''text'', JStr userQuery)], p])]])) \<and>
   member (Some (payload p)) ''generationConfig'' =
     Inr (Some (JObj [(''responseMimeType'', JStr ''application/json''),
                      (''responseSchema'', schema)]))"
  by (simp add: payload_def)

subsection \<open>The loading flag over a run and over a sequence\<close>

lemma handleAnalyze_loading_run:
  assumes "imageFile s = Some f"
  shows "(\<exists>t. fst (handleAnalyze e s) = SetIsLoading True # t) \<and>
         (\<forall>pre q post. fst (handleAnalyze e s) = pre @ Fetch q # post \<longrightarrow>
            isLoading (run s pre)) \<and>
         (readAsDataURL e f \<noteq> None \<longrightarrow>
            snd (handleAnalyze e s) = Done () \<and>
            \<not> isLoading (run s (fst (handleAnalyze e s)))) \<and>
         (snd (handleAnalyze e s) \<noteq> Pending \<longrightarrow>
            snd (handleAnalyze e s) = Done () \<and>
            \<not> isLoading (run s (fst (handleAnalyze e s))))"
proof -
  from handleAnalyze_loading_shape [OF assms, of e] obtain X where
    X: "SetIsLoading False \<notin> set X" and
    c: "(readAsDataURL e f = None \<and> handleAnalyze e s = (SetIsLoading True # X, Pending)) \<or>
        (readAsDataURL e f \<noteq> None \<and>
           handleAnalyze e s = (SetIsLoading True # X @ [SetIsLoading False], Done ()))"
    by blast
  from c show ?thesis
  proof
    assume a: "readAsDataURL e f = None \<and> handleAnalyze e s = (SetIsLoading True # X, Pending)"
    have "\<And>pre q post. SetIsLoading True # X = pre @ Fetch q # post \<Longrightarrow> isLoading (run s pre)"
      using loading_at_fetch [of X "[]" _ _ _ s] X by simp
    with a show ?thesis by simp
  next
    assume a: "readAsDataURL e f \<noteq> None \<and>
           handleAnalyze e s = (SetIsLoading True # X @ [SetIsLoading False], Done ())"
    have "\<And>pre q post. SetIsLoading True # X @ [SetIsLoading False] = pre @ Fetch q # post
            \<Longrightarrow> isLoading (run s pre)"
      using loading_at_fetch [of X "[SetIsLoading False]" _ _ _ s] X by simp
    moreover have "\<not> isLoading (run s (SetIsLoading True # X @ [SetIsLoading False]))"
      by (simp add: run_Cons run_append run_Nil)
    ultimately show ?thesis using a by simp
  qed
qed

lemma step_not_loading:
  assumes "\<not> isLoading s" and "all_returned s [op]"
  shows "\<not> isLoading (step s op)"
proof (cases op)
  case (FileChange u files)
  with assms(1) show ?thesis
    by (cases files) (simp_all add: handleFileChange_def nth_opt_def run_Cons run_Nil)
next
  case (Analyze e)
  with assms(2) have d: "snd (handleAnalyze e s) = Done ()" by simp
  show ?thesis
  proof (cases "imageFile s")
    case None
    with Analyze assms(1) show ?thesis
      by (simp add: handleAnalyze_no_file run_Cons run_Nil)
  next
    case (Some f)
    from run_handleAnalyze_cases [OF Some, of e] d Analyze show ?thesis by auto
  qed
qed

lemma quiescent_not_loading:
  "\<not> isLoading s \<Longrightarrow> all_returned s ops \<Longrightarrow> \<not> isLoading (foldl step s ops)"
proof (induction ops arbitrary: s)
  case Nil
  then show ?case by simp
next
  case (Cons op ops)
  from Cons.prems(2) have one: "all_returned s [op]" and rest: "all_returned (step s op) ops"
    by (cases op; simp)+
  from step_not_loading [OF Cons.prems(1) one] have "\<not> isLoading (step s op)" .
  from Cons.IH [OF this rest] show ?case by simp
qed

lemma exec_quiescent_not_loading: "all_returned initial_state ops \<Longrightarrow> \<not> isLoading (exec ops)"
  unfolding exec_def by (rule quiescent_not_loading) (simp_all add: initial_state_def)

subsection \<open>The exact effects of the loop\<close>

text \<open>One failed attempt that is not the last: the loop waits the current delay and goes
  on with the delay doubled and one attempt less.\<close>

lemma retry_loop_failed_step:
  assumes "1 < retries v" and "failed_attempt (fetch e k)"
  shows "\<exists>v'. delay v' = delay v * 2 \<and> retries v' = retries v - 1 \<and>
           retry_loop e req k v =
             prepend [Fetch req, Sleep (delay v)] (retry_loop e req (Suc k) v')"
proof (cases "fetch e k")
  case (Rejected err)
  let ?v = "v\<lparr>delay := delay v * 2, retries := retries v - 1\<rparr>"
  from assms(1) Rejected have "retry_loop e req k v =
      prepend [Fetch req, Sleep (delay v)] (retry_loop e req (Suc k) ?v)"
    by (simp add: retry_loop.simps [of e req k v])
  moreover have "delay ?v = delay v * 2 \<and> retries ?v = retries v - 1" by simp
  ultimately show ?thesis by blast
next
  case (Resolved r)
  let ?v = "v\<lparr>response := Some r, delay := delay v * 2, retries := retries v - 1\<rparr>"
  from assms Resolved have "retry_loop e req k v =
      prepend [Fetch req, Sleep (delay v)] (retry_loop e req (Suc k) ?v)"
    by (simp add: retry_loop.simps [of e req k v])
  moreover have "delay ?v = delay v * 2 \<and> retries ?v = retries v - 1" by simp
  ultimately show ?thesis by blast
qed

lemma retry_loop_ok_step:
  assumes "0 < retries v" and "\<not> failed_attempt (fetch e k)"
  shows "fst (retry_loop e req k v) = [Fetch req]"
proof (cases "fetch e k")
  case (Rejected err)
  with assms(2) show ?thesis by simp
next
  case (Resolved r)
  with assms show ?thesis by (simp add: retry_loop.simps [of e req k v])
qed

lemma retry_loop_last_failed:
  assumes "retries v = 1" and "failed_attempt (fetch e k)"
  shows "fst (retry_loop e req k v) = [Fetch req] \<or>
         fst (retry_loop e req k v) = [Fetch req, Sleep (delay v)]"
proof (cases "fetch e k")
  case (Rejected err)
  with assms show ?thesis by (simp add: retry_loop.simps [of e req k v])
next
  case (Resolved r)
  have stop: "retry_loop e req (Suc k) w = ([], Done w)" if "retries w = 0" for w
    using that by (simp add: retry_loop.simps [of e req "Suc k" w])
  from Resolved assms show ?thesis
    by (simp add: retry_loop.simps [of e req k v] fst_prepend stop)
qed

lemma loop_init_first_ok:
  assumes "\<not> failed_attempt (fetch e 0)"
  shows "fst (retry_loop e req 0 loop_init) = [Fetch req]"
  using assms by (intro retry_loop_ok_step) (simp_all add: loop_init_def)

lemma loop_init_first_failed:
  assumes "failed_attempt (fetch e 0)"
  shows "\<exists>v. delay v = 2000 \<and> retries v = 2 \<and>
           fst (retry_loop e req 0 loop_init) =
             [Fetch req, Sleep 1000] @ fst (retry_loop e req 1 v)"
proof -
  have "1 < retries loop_init" by (simp add: loop_init_def)
  from retry_loop_failed_step [OF this assms, of req] show ?thesis
    by (auto simp: loop_init_def fst_prepend)
qed

lemma loop_init_second_ok:
  assumes "failed_attempt (fetch e 0)" and "\<not> failed_attempt (fetch e 1)"
  shows "fst (retry_loop e req 0 loop_init) = [Fetch req, Sleep 1000, Fetch req]"
proof -
  from loop_init_first_failed [OF assms(1), of req] obtain v where
    v: "delay v = 2000" "retries v = 2"
      "fst (retry_loop e req 0 loop_init) = [Fetch req, Sleep 1000] @ fst (retry_loop e req 1 v)"
    by blast
  from v(2) assms(2) have "fst (retry_loop e req 1 v) = [Fetch req]"
    by (intro retry_loop_ok_step) simp_all
  with v(3) show ?thesis by simp
qed

lemma loop_init_second_failed:
  assumes "failed_attempt (fetch e 0)" and "failed_attempt (fetch e 1)"
  shows "\<exists>w. delay w = 4000 \<and> retries w = 1 \<and>
           fst (retry_loop e req 0 loop_init) =
             [Fetch req, Sleep 1000, Fetch req, Sleep 2000] @ fst (retry_loop e req 2 w)"
proof -
  from loop_init_first_failed [OF assms(1), of req] obtain v where
    v: "delay v = 2000" "retries v = 2"
      "fst (retry_loop e req 0 loop_init) = [Fetch req, Sleep 1000] @ fst (retry_loop e req 1 v)"
    by blast
  from v(2) have "1 < retries v" by simp
  from retry_loop_failed_step [OF this assms(2), of req] obtain w where
    w: "delay w = delay v * 2" "retries w = retries v - 1"
      "retry_loop e req 1 v = prepend [Fetch req, Sleep (delay v)] (retry_loop e req (Suc 1) w)"
    by blast
  have "Suc 1 = 2" by simp
  with w(3) have "fst (retry_loop e req 1 v) =
      [Fetch req, Sleep (delay v)] @ fst (retry_loop e req 2 w)"
    by (simp only: fst_prepend)
  with v w(1,2) have "delay w = 4000 \<and> retries w = 1 \<and>
      fst (retry_loop e req 0 loop_init) =
        [Fetch req, Sleep 1000, Fetch req, Sleep 2000] @ fst (retry_loop e req 2 w)"
    by simp
  then show ?thesis by blast
qed

lemma loop_init_third_ok:
  assumes "failed_attempt (fetch e 0)" and "failed_attempt (fetch e 1)"
    and "\<not> failed_attempt (fetch e 2)"
  shows "fst (retry_loop e req 0 loop_init) =
           [Fetch req, Sleep 1000, Fetch req, Sleep 2000, Fetch req]"
proof -
  from loop_init_second_failed [OF assms(1,2), of req] obtain w where
    w: "delay w = 4000" "retries w = 1"
      "fst (retry_loop e req 0 loop_init) =
         [Fetch req, Sleep 1000, Fetch req, Sleep 2000] @ fst (retry_loop e req 2 w)"
    by blast
  from w(2) assms(3) have "fst (retry_loop e req 2 w) = [Fetch req]"
    by (intro retry_loop_ok_step) simp_all
  with w(3) show ?thesis by simp
qed

lemma loop_init_third_failed:
  assumes "failed_attempt (fetch e 0)" and "failed_attempt (fetch e 1)"
    and "failed_attempt (fetch e 2)"
  shows "fst (retry_loop e req 0 loop_init) =
           [Fetch req, Sleep 1000, Fetch req, Sleep 2000, Fetch req] \<or>
         fst (retry_loop e req 0 loop_init) =
           [Fetch req, Sleep 1000, Fetch req, Sleep 2000, Fetch req, Sleep 4000]"
proof -
  from loop_init_second_failed [OF assms(1,2), of req] obtain w where
    w: "delay w = 4000" "retries w = 1"
      "fst (retry_loop e req 0 loop_init) =
         [Fetch req, Sleep 1000, Fetch req, Sleep 2000] @ fst (retry_loop e req 2 w)"
    by blast
  from retry_loop_last_failed [OF w(2) assms(3), of req] w(1,3) show ?thesis by auto
qed

lemma handleAnalyze_net_events:
  assumes "imageFile s = Some f" and "readAsDataURL e f = Some u"
  shows "filter (\<lambda>ev. is_fetch ev \<or> is_sleep ev) (fst (handleAnalyze e s)) =
           fst (retry_loop e (api_request e (generative_part u f)) 0 loop_init)"
  using handleAnalyze_cases [OF assms] loop_filter_net [of e "api_request e (generative_part u f)" 0 loop_init]
  by (auto simp: analyze_prologue_def)

text \<open>What does hold of the loading flag: a run that passes the guard begins with
  \<open>setIsLoading(true)\<close>, the flag is true at every call of \<open>fetch\<close>, the run returns
  whenever the file reader delivers a result, and a run that returns leaves the flag
  false; so the flag is false after every sequence of runs that have all returned.\<close>

lemma handleAnalyze_loading_returned:
  "(imageFile s = Some f \<longrightarrow>
      (\<exists>t. fst (handleAnalyze e s) = SetIsLoading True # t) \<and>
      (\<forall>pre q post. fst (handleAnalyze e s) = pre @ Fetch q # post \<longrightarrow>
         isLoading (run s pre)) \<and>
      (readAsDataURL e f \<noteq> None \<longrightarrow>
         snd (handleAnalyze e s) = Done () \<and>
         \<not> isLoading (run s (fst (handleAnalyze e s)))) \<and>
      (snd (handleAnalyze e s) \<noteq> Pending \<longrightarrow>
         snd (handleAnalyze e s) = Done () \<and>
         \<not> isLoading (run s (fst (handleAnalyze e s))))) \<and>
   (all_returned initial_state ops \<longrightarrow> \<not> isLoading (exec ops))"
  using handleAnalyze_loading_run [of s f e] exec_quiescent_not_loading [of ops] by blast

lemma demo_attempts:
  "\<not> failed_attempt (fetch env_ok 0)"
  "failed_attempt (fetch env_404_then_ok 0)" "\<not> failed_attempt (fetch env_404_then_ok 1)"
  "failed_attempt (fetch env_third_ok 0)" "failed_attempt (fetch env_third_ok 1)"
  "\<not> failed_attempt (fetch env_third_ok 2)"
  "failed_attempt (fetch env_503 0)" "failed_attempt (fetch env_503 1)"
  "failed_attempt (fetch env_503 2)"
  by (simp_all add: env_ok_def env_404_then_ok_def env_third_ok_def env_503_def demo_env_def
        ok_response_def failed_response_def)

section \<open>The claims\<close>

text \<open>
  C6. When \<open>handleFileChange\<close> receives a file, it stores the file and its preview URL,
  clears the analysis result to \<open>null\<close> and the error message to the empty string, and
  changes nothing else (\<open>isLoading\<close> keeps its value); with an empty file list it changes
  nothing at all.
\<close>

theorem handleFileChange_new_file:
  "handleFileChange u (f # fs) =
     ([SetImageFile f, SetImagePreview (u f), SetAnalysisResult JNull, SetError []], Done ()) \<and>
   run s (fst (handleFileChange u (f # fs))) =
     s\<lparr>imageFile := Some f, imagePreview := u f, analysisResult := JNull, error := []\<rparr> \<and>
   isLoading (run s (fst (handleFileChange u (f # fs)))) = isLoading s \<and>
   run s (fst (handleFileChange u [])) = s"
  by (simp add: handleFileChange_def nth_opt_def run_Cons run_Nil)

text \<open>
  C7. In every state the Analyze button is rendered disabled exactly when no image file
  is stored or an analysis is in progress.
\<close>

theorem analyze_button_disabled:
  "analyze_disabled (render s) \<longleftrightarrow> imageFile s = None \<or> isLoading s"
  by (auto simp: render_def)

text \<open>
  C10. Invoked while \<open>imageFile\<close> is \<open>null\<close>, \<open>handleAnalyze\<close> performs one effect, the
  call \<open>setError("Please upload an image first.")\<close>, and returns: no \<open>fetch\<close> is made, and
  the state afterwards differs from the state before in the error message only.
\<close>

theorem handleAnalyze_guard:
  assumes "imageFile s = None"
  shows "handleAnalyze e s = ([SetError ''Please upload an image first.''], Done ()) \<and>
         run s (fst (handleAnalyze e s)) = s\<lparr>error := ''Please upload an image first.''\<rparr> \<and>
         filter is_fetch (fst (handleAnalyze e s)) = []"
  using assms by (simp add: handleAnalyze_no_file run_Cons run_Nil)

theorem handleAnalyze_guard_witness:
  "imageFile initial_state = None \<and>
   handleAnalyze env_ok initial_state = ([SetError ''Please upload an image first.''], Done ()) \<and>
   run initial_state (fst (handleAnalyze env_ok initial_state)) =
     \<lparr>imageFile = None, imagePreview = [], analysisResult = JNull, isLoading = False,
      error = ''Please upload an image first.''\<rparr>"
proof -
  have h: "imageFile initial_state = None" by (simp add: initial_state_def)
  from handleAnalyze_guard [OF h, of env_ok] h show ?thesis
    by (simp add: initial_state_def run_Cons run_Nil)
qed

text \<open>
  C2. Whatever the browser answers (any mix of statuses and rejected calls), the retry
  loop of \<open>handleAnalyze\<close> comes to an end, having called \<open>fetch\<close> at most three times;
  so does every run of \<open>handleAnalyze\<close>.
\<close>

theorem retry_loop_at_most_three_fetches:
  "snd (retry_loop e req 0 loop_init) \<noteq> Pending \<and>
   length (filter is_fetch (fst (retry_loop e req 0 loop_init))) \<le> 3 \<and>
   length (filter is_fetch (fst (handleAnalyze e s))) \<le> 3"
proof -
  from handleAnalyze_fetch_filter [of e s] obtain q where
    "prefix (filter is_fetch (fst (handleAnalyze e s))) [Fetch q, Fetch q, Fetch q]" by blast
  from prefix_length_le [OF this]
  have "length (filter is_fetch (fst (handleAnalyze e s))) \<le> 3" by simp
  with retry_loop_not_pending [of e req 0 loop_init] loop_init_fetches [of e req]
  show ?thesis by simp
qed

text \<open>
  C3. The delay starts at 1000 ms, and a failed attempt that is not the last is followed
  by a wait of the current delay and a further attempt made with the delay doubled.
  From the start of the loop: a first attempt that succeeds is the only effect; a
  first attempt that fails (a rejected \<open>fetch\<close> or a response that is not ok) is
  followed by a wait of exactly 1000 ms and the second attempt; a second failure by a
  wait of exactly 2000 ms and the third attempt; after a third failure the loop ends,
  having waited 4000 ms more when that failure was a 429 or 5xx response. These are
  the fetches and waits of a whole run of \<open>handleAnalyze\<close>, and they are always an
  initial part of: fetch, 1000, fetch, 2000, fetch, 4000.
\<close>

theorem handleAnalyze_backoff:
  "(1 < retries v \<and> failed_attempt (fetch e k) \<longrightarrow>
      (\<exists>v'. delay v' = delay v * 2 \<and> retries v' = retries v - 1 \<and>
         retry_loop e req k v =
           prepend [Fetch req, Sleep (delay v)] (retry_loop e req (Suc k) v'))) \<and>
   (\<not> failed_attempt (fetch e 0) \<longrightarrow>
      fst (retry_loop e req 0 loop_init) = [Fetch req]) \<and>
   (failed_attempt (fetch e 0) \<and> \<not> failed_attempt (fetch e 1) \<longrightarrow>
      fst (retry_loop e req 0 loop_init) = [Fetch req, Sleep 1000, Fetch req]) \<and>
   (failed_attempt (fetch e 0) \<and> failed_attempt (fetch e 1) \<and> \<not> failed_attempt (fetch e 2) \<longrightarrow>
      fst (retry_loop e req 0 loop_init) =
        [Fetch req, Sleep 1000, Fetch req, Sleep 2000, Fetch req]) \<and>
   (failed_attempt (fetch e 0) \<and> failed_attempt (fetch e 1) \<and> failed_attempt (fetch e 2) \<longrightarrow>
      fst (retry_loop e req 0 loop_init) =
        [Fetch req, Sleep 1000, Fetch req, Sleep 2000, Fetch req] \<or>
      fst (retry_loop e req 0 loop_init) =
        [Fetch req, Sleep 1000, Fetch req, Sleep 2000, Fetch req, Sleep 4000]) \<and>
   (imageFile s = Some f \<and> readAsDataURL e f = Some u \<longrightarrow>
      filter (\<lambda>ev. is_fetch ev \<or> is_sleep ev) (fst (handleAnalyze e s)) =
        fst (retry_loop e (api_request e (generative_part u f)) 0 loop_init)) \<and>
   prefix (fst (retry_loop e req 0 loop_init))
     [Fetch req, Sleep 1000, Fetch req, Sleep 2000, Fetch req, Sleep 4000] \<and>
   (\<exists>q. prefix (filter (\<lambda>ev. is_fetch ev \<or> is_sleep ev) (fst (handleAnalyze e s)))
           [Fetch q, Sleep 1000, Fetch q, Sleep 2000, Fetch q, Sleep 4000])"
proof (intro conjI impI)
  assume "1 < retries v \<and> failed_attempt (fetch e k)"
  then show "\<exists>v'. delay v' = delay v * 2 \<and> retries v' = retries v - 1 \<and>
         retry_loop e req k v =
           prepend [Fetch req, Sleep (delay v)] (retry_loop e req (Suc k) v')"
    using retry_loop_failed_step [of v e k req] by blast
next
  assume "\<not> failed_attempt (fetch e 0)"
  then show "fst (retry_loop e req 0 loop_init) = [Fetch req]" by (rule loop_init_first_ok)
next
  assume "failed_attempt (fetch e 0) \<and> \<not> failed_attempt (fetch e 1)"
  then show "fst (retry_loop e req 0 loop_init) = [Fetch req, Sleep 1000, Fetch req]"
    using loop_init_second_ok [of e req] by blast
next
  assume "failed_attempt (fetch e 0) \<and> failed_attempt (fetch e 1) \<and> \<not> failed_attempt (fetch e 2)"
  then show "fst (retry_loop e req 0 loop_init) =
        [Fetch req, Sleep 1000, Fetch req, Sleep 2000, Fetch req]"
    using loop_init_third_ok [of e req] by blast
next
  assume "failed_attempt (fetch e 0) \<and> failed_attempt (fetch e 1) \<and> failed_attempt (fetch e 2)"
  then show "fst (retry_loop e req 0 loop_init) =
        [Fetch req, Sleep 1000, Fetch req, Sleep 2000, Fetch req] \<or>
      fst (retry_loop e req 0 loop_init) =
        [Fetch req, Sleep 1000, Fetch req, Sleep 2000, Fetch req, Sleep 4000]"
    using loop_init_third_failed [of e req] by blast
next
  assume "imageFile s = Some f \<and> readAsDataURL e f = Some u"
  then show "filter (\<lambda>ev. is_fetch ev \<or> is_sleep ev) (fst (handleAnalyze e s)) =
        fst (retry_loop e (api_request e (generative_part u f)) 0 loop_init)"
    using handleAnalyze_net_events [of s f e u] by blast
next
  show "prefix (fst (retry_loop e req 0 loop_init))
     [Fetch req, Sleep 1000, Fetch req, Sleep 2000, Fetch req, Sleep 4000]"
    by (rule loop_init_schedule)
next
  show "\<exists>q. prefix (filter (\<lambda>ev. is_fetch ev \<or> is_sleep ev) (fst (handleAnalyze e s)))
           [Fetch q, Sleep 1000, Fetch q, Sleep 2000, Fetch q, Sleep 4000]"
    using handleAnalyze_net [of e s] by blast
qed

theorem handleAnalyze_backoff_witness:
  "\<not> failed_attempt (fetch env_ok 0) \<and>
   fst (retry_loop env_ok (demo_request env_ok) 0 loop_init) = [Fetch (demo_request env_ok)] \<and>
   failed_attempt (fetch env_404_then_ok 0) \<and> \<not> failed_attempt (fetch env_404_then_ok 1) \<and>
   fst (retry_loop env_404_then_ok (demo_request env_404_then_ok) 0 loop_init) =
     [Fetch (demo_request env_404_then_ok), Sleep 1000, Fetch (demo_request env_404_then_ok)] \<and>
   failed_attempt (fetch env_third_ok 0) \<and> failed_attempt (fetch env_third_ok 1) \<and>
   \<not> failed_attempt (fetch env_third_ok 2) \<and>
   fst (retry_loop env_third_ok (demo_request env_third_ok) 0 loop_init) =
     [Fetch (demo_request env_third_ok), Sleep 1000, Fetch (demo_request env_third_ok),
      Sleep 2000, Fetch (demo_request env_third_ok)] \<and>
   failed_attempt (fetch env_503 0) \<and> failed_attempt (fetch env_503 1) \<and>
   failed_attempt (fetch env_503 2) \<and>
   (fst (retry_loop env_503 (demo_request env_503) 0 loop_init) =
      [Fetch (demo_request env_503), Sleep 1000, Fetch (demo_request env_503),
       Sleep 2000, Fetch (demo_request env_503)] \<or>
    fst (retry_loop env_503 (demo_request env_503) 0 loop_init) =
      [Fetch (demo_request env_503), Sleep 1000, Fetch (demo_request env_503),
       Sleep 2000, Fetch (demo_request env_503), Sleep 4000]) \<and>
   1 < retries loop_init \<and>
   (\<exists>v'. delay v' = delay loop_init * 2 \<and> retries v' = retries loop_init - 1 \<and>
      retry_loop env_503 (demo_request env_503) 0 loop_init =
        prepend [Fetch (demo_request env_503), Sleep (delay loop_init)]
          (retry_loop env_503 (demo_request env_503) (Suc 0) v')) \<and>
   imageFile demo_state = Some demo_file \<and> readAsDataURL env_503 demo_file = Some demo_url \<and>
   filter (\<lambda>ev. is_fetch ev \<or> is_sleep ev) (fst (handleAnalyze env_503 demo_state)) =
     fst (retry_loop env_503 (demo_request env_503) 0 loop_init)"
proof -
  have r: "1 < retries loop_init" by (simp add: loop_init_def)
  have h: "imageFile demo_state = Some demo_file" by (simp add: demo_state_eq)
  have u: "readAsDataURL env_503 demo_file = Some demo_url"
    by (simp add: env_503_def demo_env_def)
  note a = demo_attempts
  from handleAnalyze_backoff
    [of loop_init env_ok 0 "demo_request env_ok" demo_state demo_file demo_url] a(1)
  have c1: "fst (retry_loop env_ok (demo_request env_ok) 0 loop_init) =
      [Fetch (demo_request env_ok)]" by blast
  from handleAnalyze_backoff
    [of loop_init env_404_then_ok 0 "demo_request env_404_then_ok" demo_state demo_file demo_url]
    a(2,3)
  have c2: "fst (retry_loop env_404_then_ok (demo_request env_404_then_ok) 0 loop_init) =
     [Fetch (demo_request env_404_then_ok), Sleep 1000, Fetch (demo_request env_404_then_ok)]"
    by blast
  from handleAnalyze_backoff
    [of loop_init env_third_ok 0 "demo_request env_third_ok" demo_state demo_file demo_url]
    a(4,5,6)
  have c3: "fst (retry_loop env_third_ok (demo_request env_third_ok) 0 loop_init) =
     [Fetch (demo_request env_third_ok), Sleep 1000, Fetch (demo_request env_third_ok),
      Sleep 2000, Fetch (demo_request env_third_ok)]"
    by blast
  from handleAnalyze_backoff
    [of loop_init env_503 0 "demo_request env_503" demo_state demo_file demo_url]
    a(7,8,9) r h u
  have c4: "(fst (retry_loop env_503 (demo_request env_503) 0 loop_init) =
      [Fetch (demo_request env_503), Sleep 1000, Fetch (demo_request env_503),
       Sleep 2000, Fetch (demo_request env_503)] \<or>
    fst (retry_loop env_503 (demo_request env_503) 0 loop_init) =
      [Fetch (demo_request env_503), Sleep 1000, Fetch (demo_request env_503),
       Sleep 2000, Fetch (demo_request env_503), Sleep 4000]) \<and>
   (\<exists>v'. delay v' = delay loop_init * 2 \<and> retries v' = retries loop_init - 1 \<and>
      retry_loop env_503 (demo_request env_503) 0 loop_init =
        prepend [Fetch (demo_request env_503), Sleep (delay loop_init)]
          (retry_loop env_503 (demo_request env_503) (Suc 0) v')) \<and>
   filter (\<lambda>ev. is_fetch ev \<or> is_sleep ev) (fst (handleAnalyze env_503 demo_state)) =
     fst (retry_loop env_503 (api_request env_503 (generative_part demo_url demo_file)) 0 loop_init)"
    by blast
  from c1 c2 c3 c4 a r h u show ?thesis by (simp add: demo_request_def)
qed

text \<open>
  C8 (the code departs from it). The claim: every run of \<open>handleAnalyze\<close> that passes
  the guard resets \<open>isLoading\<close> to false on every failure path, so that \<open>isLoading\<close> is
  false whenever the page is idle. The code: the \<open>finally\<close> of line 246 is meant to do
  so, but the promise of \<open>fileToGenerativePart\<close> has no failure path. When the file
  read fails, \<open>reader.result\<close> is \<open>null\<close>, line 25 throws inside \<open>onloadend\<close> before
  \<open>resolve\<close> is called, the \<open>await\<close> of line 73 never returns and line 247 never runs.
  Here the run stops after \<open>setIsLoading(true)\<close>, \<open>setError("")\<close>,
  \<open>setAnalysisResult(null)\<close> and the read; \<open>isLoading\<close> is true afterwards and stays
  true after the next upload, with the Analyze button disabled.
\<close>

theorem failed_read_leaves_loading:
  "imageFile demo_state = Some demo_file \<and>
   readAsDataURL env_read_failed demo_file = None \<and>
   handleAnalyze env_read_failed demo_state =
     ([SetIsLoading True, SetError [], SetAnalysisResult JNull, ReadFile demo_file], Pending) \<and>
   isLoading (run demo_state (fst (handleAnalyze env_read_failed demo_state))) \<and>
   isLoading (exec [FileChange (\<lambda>f. ''blob:bottle'') [demo_file], Analyze env_read_failed]) \<and>
   isLoading (exec [FileChange (\<lambda>f. ''blob:bottle'') [demo_file], Analyze env_read_failed,
                    FileChange (\<lambda>f. ''blob:other'') [demo_file]]) \<and>
   analyze_disabled (render (exec [FileChange (\<lambda>f. ''blob:bottle'') [demo_file],
                    Analyze env_read_failed, FileChange (\<lambda>f. ''blob:other'') [demo_file]]))"
proof -
  have h: "imageFile demo_state = Some demo_file" by (simp add: demo_state_eq)
  have u: "readAsDataURL env_read_failed demo_file = None"
    by (simp add: env_read_failed_def demo_env_def)
  have t: "handleAnalyze env_read_failed demo_state =
     ([SetIsLoading True, SetError [], SetAnalysisResult JNull, ReadFile demo_file], Pending)"
    using handleAnalyze_read_failed [OF h u] by (simp add: analyze_prologue_def)
  have l: "isLoading (run demo_state (fst (handleAnalyze env_read_failed demo_state)))"
    by (simp add: t run_Cons run_Nil)
  have s1: "step initial_state (FileChange (\<lambda>f. ''blob:bottle'') [demo_file]) = demo_state"
    by (simp only: demo_state_def)
  have e1: "exec [FileChange (\<lambda>f. ''blob:bottle'') [demo_file], Analyze env_read_failed] =
      run demo_state (fst (handleAnalyze env_read_failed demo_state))"
    by (simp add: exec_def s1 del: step.simps(1))
  have e2: "exec [FileChange (\<lambda>f. ''blob:bottle'') [demo_file], Analyze env_read_failed,
                  FileChange (\<lambda>f. ''blob:other'') [demo_file]] =
      step (run demo_state (fst (handleAnalyze env_read_failed demo_state)))
        (FileChange (\<lambda>f. ''blob:other'') [demo_file])"
    by (simp add: exec_def s1 del: step.simps(1))
  have l2: "isLoading (step (run demo_state (fst (handleAnalyze env_read_failed demo_state)))
        (FileChange (\<lambda>f. ''blob:other'') [demo_file]))"
    using l by (simp add: handleFileChange_def nth_opt_def run_Cons run_Nil)
  from h u t l l2 show ?thesis
    by (simp only: e1 e2 render_def view.simps simp_thms)
qed



text \<open>
  C9. After any sequence of runs of \<open>handleFileChange\<close> and \<open>handleAnalyze\<close> from the
  initial state, a non-empty error message means that the analysis result is \<open>null\<close>;
  so the page never shows the error banner and the dashboard together.
\<close>

theorem error_excludes_result:
  "(error (exec ops) \<noteq> [] \<longrightarrow> analysisResult (exec ops) = JNull) \<and>
   \<not> (error_banner (render (exec ops)) \<noteq> None \<and> dashboard (render (exec ops)) \<noteq> None)"
proof -
  from exec_invariant [of ops]
  have i: "error (exec ops) \<noteq> [] \<longrightarrow> analysisResult (exec ops) = JNull" by simp
  then have "\<not> (error_banner (render (exec ops)) \<noteq> None \<and> dashboard (render (exec ops)) \<noteq> None)"
    by (auto simp: render_def)
  with i show ?thesis by simp
qed

theorem error_excludes_result_witness:
  "error (exec [FileChange (\<lambda>f. ''blob:bottle'') [demo_file], Analyze env_503]) \<noteq> [] \<and>
   analysisResult (exec [FileChange (\<lambda>f. ''blob:bottle'') [demo_file], Analyze env_503]) = JNull \<and>
   error_banner (render (exec [FileChange (\<lambda>f. ''blob:bottle'') [demo_file], Analyze env_503])) \<noteq> None \<and>
   dashboard (render (exec [FileChange (\<lambda>f. ''blob:bottle'') [demo_file], Analyze env_503])) = None"
proof -
  let ?ops = "[FileChange (\<lambda>f. ''blob:bottle'') [demo_file], Analyze env_503]"
  have e: "error (exec ?ops) \<noteq> []" by (simp add: exec_failed_analysis)
  then have b: "error_banner (render (exec ?ops)) \<noteq> None" by (simp add: render_def)
  from error_excludes_result [of ?ops] e b show ?thesis by blast
qed

text \<open>
  C5. Every request that \<open>handleAnalyze\<close> sends is a POST to the one fixed endpoint URL
  with the header \<open>Content-Type: application/json\<close>; its body is the serialised payload,
  whose user parts are the query text and the inline data made of the base64 text of
  the file (what follows the comma of the data URL that the reader delivers) and the
  file's MIME type, and whose \<open>generationConfig\<close> carries the response schema. The
  schema's \<open>required\<close> list is the seven names \<open>waste_type\<close>, \<open>home_treatment\<close>,
  \<open>industry_treatment\<close>, \<open>stats\<close>, \<open>waste_composition\<close>, \<open>disposal_trends\<close>,
  \<open>recycling_rates\<close>, which are also exactly its properties.
\<close>

theorem every_request_is_the_fixed_post:
  assumes "imageFile s = Some f"
    and "readAsDataURL e f = Some (hdr @ CHR '','' # b64)"
    and "CHR '','' \<notin> set hdr" and "CHR '','' \<notin> set b64"
    and "Fetch q \<in> set (fst (handleAnalyze e s))"
  shows "q = \<lparr>url = ''https://generativelanguage.googleapis.com/v1beta/models/gemini-2.5-flash-preview-09-2025:generateContent?key='',
               http_method = ''POST'',
               headers = [(''Content-Type'', ''application/json'')],
               body = JSON_stringify e (payload
                 (JObj [(''inlineData'',
                    JObj [(''data'', JStr b64), (''mimeType'', JStr (file_type f))])]))\<rparr> \<and>
         (\<forall>p. member (Some (payload p)) ''contents'' =
                Inr (Some (JArr [JObj [(''role'', JStr ''user''),
                   (''parts'', JArr [JObj [(''text'', JStr userQuery)], p])]])) \<and>
              member (Some (payload p)) ''generationConfig'' =
                Inr (Some (JObj [(''responseMimeType'', JStr ''application/json''),
                                 (''responseSchema'', schema)]))) \<and>
         member (Some schema) ''required'' =
           Inr (Some (JArr [JStr ''waste_type'', JStr ''home_treatment'',
                  JStr ''industry_treatment'', JStr ''stats'', JStr ''waste_composition'',
                  JStr ''disposal_trends'', JStr ''recycling_rates''])) \<and>
         map fst schema_properties =
           [''waste_type'', ''home_treatment'', ''industry_treatment'', ''stats'',
            ''waste_composition'', ''disposal_trends'', ''recycling_rates'']"
proof -
  from handleAnalyze_net [of e s] assms(1,2,5)
  have "q = api_request e (generative_part (hdr @ CHR '','' # b64) f)" by blast
  then have "q = \<lparr>url = ''https://generativelanguage.googleapis.com/v1beta/models/gemini-2.5-flash-preview-09-2025:generateContent?key='',
               http_method = ''POST'',
               headers = [(''Content-Type'', ''application/json'')],
               body = JSON_stringify e (payload
                 (JObj [(''inlineData'',
                    JObj [(''data'', JStr b64), (''mimeType'', JStr (file_type f))])]))\<rparr>"
    by (simp only: generative_part_data_url [OF assms(3,4)] api_request_def apiUrl_text)
  with payload_parts schema_required_fields schema_property_names show ?thesis
    by (simp only: simp_thms)
qed

theorem every_request_is_the_fixed_post_witness:
  "imageFile demo_state = Some demo_file \<and>
   readAsDataURL env_ok demo_file = Some (''data:image/png;base64'' @ CHR '','' # ''iVBORw0KGgo='') \<and>
   CHR '','' \<notin> set ''data:image/png;base64'' \<and> CHR '','' \<notin> set ''iVBORw0KGgo='' \<and>
   Fetch (api_request env_ok (generative_part demo_url demo_file))
     \<in> set (fst (handleAnalyze env_ok demo_state)) \<and>
   api_request env_ok (generative_part demo_url demo_file) =
     \<lparr>url = ''https://generativelanguage.googleapis.com/v1beta/models/gemini-2.5-flash-preview-09-2025:generateContent?key='',
      http_method = ''POST'',
      headers = [(''Content-Type'', ''application/json'')],
      body = JSON_stringify env_ok (payload
        (JObj [(''inlineData'',
           JObj [(''data'', JStr ''iVBORw0KGgo=''), (''mimeType'', JStr ''image/png'')])]))\<rparr>"
proof -
  have h1: "imageFile demo_state = Some demo_file" by (simp add: demo_state_eq)
  have h2: "readAsDataURL env_ok demo_file =
              Some (''data:image/png;base64'' @ CHR '','' # ''iVBORw0KGgo='')"
    by (simp add: env_ok_def demo_env_def demo_url_def)
  have h3: "CHR '','' \<notin> set ''data:image/png;base64''" by simp
  have h4: "CHR '','' \<notin> set ''iVBORw0KGgo=''" by simp
  have h5: "Fetch (api_request env_ok (generative_part demo_url demo_file))
              \<in> set (fst (handleAnalyze env_ok demo_state))"
    by (simp add: run_env_ok)
  have t: "file_type demo_file = ''image/png''" by (simp add: demo_file_def)
  from every_request_is_the_fixed_post [OF h1 h2 h3 h4 h5] h1 h2 h3 h4 h5 t
  show ?thesis by simp
qed

text \<open>
  C1 (the code departs from it). The claim: a response that is not ok and whose status
  is neither 429 nor at least 500 is not retried, and \<open>handleAnalyze\<close> fails on it with
  an \<open>APIError\<close>. The code: the \<open>throw\<close> of line 219, commented "Client error, don't
  retry", is inside the \<open>try\<close> of the loop, so the \<open>catch\<close> of line 221 takes it and,
  unless \<open>retries\<close> is 1, waits and goes round again. Here the first response is a 404
  and the second is ok: \<open>fetch\<close> is called twice, with a wait of 1000 ms between, and
  the run ends with a result and no error message.
\<close>

theorem client_error_is_retried:
  "fetch env_404_then_ok 0 = Resolved (failed_response 404 ''Not Found'') \<and>
   \<not> ok (failed_response 404 ''Not Found'') \<and>
   status (failed_response 404 ''Not Found'') = 404 \<and>
   handleAnalyze env_404_then_ok demo_state =
     ([SetIsLoading True, SetError [], SetAnalysisResult JNull, ReadFile demo_file,
       Fetch (api_request env_404_then_ok (generative_part demo_url demo_file)),
       Sleep 1000,
       Fetch (api_request env_404_then_ok (generative_part demo_url demo_file)),
       SetAnalysisResult (JObj []), SetIsLoading False], Done ()) \<and>
   length (filter is_fetch (fst (handleAnalyze env_404_then_ok demo_state))) = 2 \<and>
   error (run demo_state (fst (handleAnalyze env_404_then_ok demo_state))) = [] \<and>
   analysisResult (run demo_state (fst (handleAnalyze env_404_then_ok demo_state))) = JObj []"
proof -
  have env: "readAsDataURL env_404_then_ok demo_file = Some demo_url"
    by (simp add: env_404_then_ok_def demo_env_def)
  have f0: "fetch env_404_then_ok 0 = Resolved (failed_response 404 ''Not Found'')"
    by (simp add: env_404_then_ok_def demo_env_def)
  have rr: "read_result env_404_then_ok demo_body = ([SetAnalysisResult (JObj [])], Done ())"
    unfolding env_404_then_ok_def by (rule read_demo_body)
  have "analyze_try env_404_then_ok demo_file =
     ([ReadFile demo_file,
       Fetch (api_request env_404_then_ok (generative_part demo_url demo_file)),
       Sleep 1000,
       Fetch (api_request env_404_then_ok (generative_part demo_url demo_file)),
       SetAnalysisResult (JObj [])], Done ())"
    by (simp add: analyze_try_def fileToGenerativePart_def env loop_404_then_ok rr bind_def
          prepend_def lift_def ok_response_def)
  then have run: "handleAnalyze env_404_then_ok demo_state =
     ([SetIsLoading True, SetError [], SetAnalysisResult JNull, ReadFile demo_file,
       Fetch (api_request env_404_then_ok (generative_part demo_url demo_file)),
       Sleep 1000,
       Fetch (api_request env_404_then_ok (generative_part demo_url demo_file)),
       SetAnalysisResult (JObj []), SetIsLoading False], Done ())"
    by (simp add: handleAnalyze_def demo_state_eq try_catch_def try_finally_def prepend_def
          emit_def)
  from f0 run show ?thesis
    by (simp add: failed_response_def run_Cons run_Nil)
qed

end
